theory Spec2Isabelle
  imports Complex_Main
begin

section \<open>Token validation: the JWT local validator\<close>

text \<open>
  The development follows \<^verbatim>\<open>src/app/utils/auth/jwt_local_validator.py\<close>.
  A Python \<^verbatim>\<open>str\<close> is modelled as the list of its UTF-8 bytes (\<^typ>\<open>string\<close>),
  a \<^verbatim>\<open>bytes\<close> value as a \<^typ>\<open>string\<close> too, a decoded JSON document as a value of
  the datatype \<open>json\<close> below, and a raised exception as the left summand of a sum type.
\<close>

subsection \<open>JSON values and Python exceptions\<close>

datatype json =
    JNull
  | JBool bool
  | JNum real
  | JStr string
  | JArr "json list"
  | JObj "(string \<times> json) list"

text \<open>
  The exception classes the module distinguishes in its handlers:
  \<^verbatim>\<open>JWTValidationError(message, error_code, details)\<close> (the message text is not
  modelled), \<^verbatim>\<open>jose.JWTError\<close>, and every other subclass of \<^verbatim>\<open>Exception\<close>,
  tagged with its class name.
\<close>

datatype exn =
    JWTValidationError string "(string \<times> json) list"
  | JWTError
  | PyException string

subsection \<open>Base64 as used for the symmetric key\<close>

text \<open>
  \<^verbatim>\<open>base64.urlsafe_b64encode\<close> is \<^verbatim>\<open>b64encode\<close> followed by the translation of
  \<^verbatim>\<open>+/\<close> to \<^verbatim>\<open>-_\<close>; \<^verbatim>\<open>base64.urlsafe_b64decode\<close> is the inverse translation
  followed by \<^verbatim>\<open>binascii.a2b_base64\<close> in its default, lenient mode.
\<close>

definition b64_alphabet :: string where
  "b64_alphabet = ''ABCDEFGHIJKLMNOPQRSTUVWXYZabcdefghijklmnopqrstuvwxyz0123456789+/''"

text \<open>The character of a sextet; every call below passes a value below 64.\<close>

definition b64_char :: "nat \<Rightarrow> char" where
  "b64_char n = b64_alphabet ! n"

fun index_of :: "'a \<Rightarrow> 'a list \<Rightarrow> nat option" where
  "index_of x [] = None"
| "index_of x (y # ys) = (if x = y then Some 0 else map_option Suc (index_of x ys))"

definition b64_value :: "char \<Rightarrow> nat option" where
  "b64_value c = index_of c b64_alphabet"

fun b64encode :: "string \<Rightarrow> string" where
  "b64encode (a # b # c # rest) =
     [b64_char (of_char a div 4),
      b64_char ((of_char a mod 4) * 16 + of_char b div 16),
      b64_char ((of_char b mod 16) * 4 + of_char c div 64),
      b64_char (of_char c mod 64)] @ b64encode rest"
| "b64encode [a, b] =
     [b64_char (of_char a div 4),
      b64_char ((of_char a mod 4) * 16 + of_char b div 16),
      b64_char ((of_char b mod 16) * 4),
      CHR ''='']"
| "b64encode [a] =
     [b64_char (of_char a div 4),
      b64_char ((of_char a mod 4) * 16),
      CHR ''='', CHR ''='']"
| "b64encode [] = []"

definition urlsafe_encode_translation :: "char \<Rightarrow> char" where
  "urlsafe_encode_translation c =
     (if c = CHR ''+'' then CHR ''-'' else if c = CHR ''/'' then CHR ''_'' else c)"

definition urlsafe_decode_translation :: "char \<Rightarrow> char" where
  "urlsafe_decode_translation c =
     (if c = CHR ''-'' then CHR ''+'' else if c = CHR ''_'' then CHR ''/'' else c)"

definition urlsafe_b64encode :: "string \<Rightarrow> string" where
  "urlsafe_b64encode s = map urlsafe_encode_translation (b64encode s)"

text \<open>\<^verbatim>\<open>s.rstrip(c)\<close> for a single character \<^verbatim>\<open>c\<close>: drop the trailing run of \<^verbatim>\<open>c\<close>.\<close>

definition rstrip :: "char \<Rightarrow> string \<Rightarrow> string" where
  "rstrip ch s = rev (dropWhile (\<lambda>c. c = ch) (rev s))"

text \<open>
  The decoding loop of \<^verbatim>\<open>binascii.a2b_base64\<close> with \<^verbatim>\<open>strict_mode\<close> off. The state is
  \<^verbatim>\<open>quad_pos\<close>, \<^verbatim>\<open>leftchar\<close>, \<^verbatim>\<open>pads\<close> and the bytes written so far. A pad character
  ends the decoding once \<^verbatim>\<open>quad_pos >= 2 && quad_pos + ++pads >= 4\<close> and is skipped
  otherwise; a character outside the alphabet is skipped; the bitwise
  \<^verbatim>\<open>(leftchar << n) | (this_ch >> m)\<close> joins disjoint bit ranges and is written as a sum,
  the store into an \<^verbatim>\<open>unsigned char\<close> as \<^const>\<open>char_of\<close> (which reduces modulo 256).
  Leftover characters at the end raise \<^verbatim>\<open>binascii.Error\<close>.
\<close>

fun a2b_loop :: "string \<Rightarrow> nat \<Rightarrow> nat \<Rightarrow> nat \<Rightarrow> string \<Rightarrow> exn + string" where
  "a2b_loop [] quad_pos leftchar pads out =
     (if quad_pos \<noteq> 0 then Inl (PyException ''binascii.Error'') else Inr out)"
| "a2b_loop (c # cs) quad_pos leftchar pads out =
     (if c = CHR ''='' then
        (if 2 \<le> quad_pos \<and> 4 \<le> quad_pos + (pads + 1) then Inr out
         else a2b_loop cs quad_pos leftchar (if 2 \<le> quad_pos then pads + 1 else pads) out)
      else
        (case b64_value c of
           None \<Rightarrow> a2b_loop cs quad_pos leftchar pads out
         | Some v \<Rightarrow>
             (if quad_pos = 0 then a2b_loop cs 1 v 0 out
              else if quad_pos = 1 then
                a2b_loop cs 2 (v mod 16) 0 (out @ [char_of (leftchar * 4 + v div 16)])
              else if quad_pos = 2 then
                a2b_loop cs 3 (v mod 4) 0 (out @ [char_of (leftchar * 16 + v div 4)])
              else a2b_loop cs 0 0 0 (out @ [char_of (leftchar * 64 + v)]))))"

text \<open>
  \<^verbatim>\<open>urlsafe_b64decode\<close> of a \<^verbatim>\<open>str\<close>: a non-ASCII string raises \<^verbatim>\<open>ValueError\<close>
  (in the byte model: some byte is 128 or more).
\<close>

definition urlsafe_b64decode :: "string \<Rightarrow> exn + string" where
  "urlsafe_b64decode s =
     (if list_all (\<lambda>c. (of_char c :: nat) < 128) s
      then a2b_loop (map urlsafe_decode_translation s) 0 0 0 []
      else Inl (PyException ''ValueError''))"

text \<open>
  The value \<^verbatim>\<open>k\<close> of \<^verbatim>\<open>_get_local_jwks\<close>:
  \<^verbatim>\<open>base64.urlsafe_b64encode(secret.encode("utf-8")).decode("utf-8").rstrip("=")\<close>,
  and the padding restoration of the key loop of \<^verbatim>\<open>verify_token\<close>:
  \<^verbatim>\<open>k += "=" * (4 - len(k) % 4)\<close>.
\<close>

definition local_jwks_k :: "string \<Rightarrow> string" where
  "local_jwks_k secret = rstrip (CHR ''='') (urlsafe_b64encode secret)"

definition restore_padding :: "string \<Rightarrow> string" where
  "restore_padding k = k @ replicate (4 - length k mod 4) (CHR ''='')"


text \<open>
  The unpadded encoding written as a function of its own; it is what
  \<^const>\<open>local_jwks_k\<close> computes (lemma \<open>local_jwks_k_unpadded\<close> below) and the
  function the round-trip proof inducts over.
\<close>

fun enc_unpadded :: "string \<Rightarrow> string" where
  "enc_unpadded (a # b # c # rest) =
     map urlsafe_encode_translation
       [b64_char (of_char a div 4),
        b64_char ((of_char a mod 4) * 16 + of_char b div 16),
        b64_char ((of_char b mod 16) * 4 + of_char c div 64),
        b64_char (of_char c mod 64)] @ enc_unpadded rest"
| "enc_unpadded [a, b] =
     map urlsafe_encode_translation
       [b64_char (of_char a div 4),
        b64_char ((of_char a mod 4) * 16 + of_char b div 16),
        b64_char ((of_char b mod 16) * 4)]"
| "enc_unpadded [a] =
     map urlsafe_encode_translation
       [b64_char (of_char a div 4),
        b64_char ((of_char a mod 4) * 16)]"
| "enc_unpadded [] = []"

subsection \<open>Python operations on decoded JSON\<close>

text \<open>Truth value of a Python object (\<^verbatim>\<open>None\<close> and JSON \<^verbatim>\<open>null\<close> are both \<^const>\<open>JNull\<close>).\<close>

fun truthy :: "json \<Rightarrow> bool" where
  "truthy JNull = False"
| "truthy (JBool b) = b"
| "truthy (JNum x) = (x \<noteq> 0)"
| "truthy (JStr s) = (s \<noteq> [])"
| "truthy (JArr xs) = (xs \<noteq> [])"
| "truthy (JObj kvs) = (kvs \<noteq> [])"

text \<open>\<^verbatim>\<open>d.get(k)\<close> and \<^verbatim>\<open>d.get(k, default)\<close> on a \<^verbatim>\<open>dict\<close>.\<close>

definition dict_get_default :: "(string \<times> json) list \<Rightarrow> string \<Rightarrow> json \<Rightarrow> json" where
  "dict_get_default d k dflt = (case map_of d k of None \<Rightarrow> dflt | Some x \<Rightarrow> x)"

definition dict_get :: "(string \<times> json) list \<Rightarrow> string \<Rightarrow> json" where
  "dict_get d k = dict_get_default d k JNull"

text \<open>\<^verbatim>\<open>x.get(k, default)\<close> on an arbitrary decoded value: only a \<^verbatim>\<open>dict\<close> has \<^verbatim>\<open>get\<close>.\<close>

fun py_get :: "json \<Rightarrow> string \<Rightarrow> json \<Rightarrow> exn + json" where
  "py_get (JObj d) k dflt = Inr (dict_get_default d k dflt)"
| "py_get _ k dflt = Inl (PyException ''AttributeError'')"

text \<open>\<^verbatim>\<open>for key in x\<close>: the elements of a list, the characters of a string, the keys of a dict.\<close>

fun py_iter :: "json \<Rightarrow> exn + json list" where
  "py_iter (JArr xs) = Inr xs"
| "py_iter (JStr s) = Inr (map (\<lambda>c. JStr [c]) s)"
| "py_iter (JObj d) = Inr (map (\<lambda>kv. JStr (fst kv)) d)"
| "py_iter _ = Inl (PyException ''TypeError'')"

fun contains :: "string \<Rightarrow> string \<Rightarrow> bool" where
  "contains [] h = (h = [])"
| "contains (c # cs) h = (take (length h) (c # cs) = h \<or> contains cs h)"

text \<open>\<^verbatim>\<open>h in x\<close> for a string \<^verbatim>\<open>h\<close>: list membership, substring test, key membership.\<close>

fun py_in :: "string \<Rightarrow> json \<Rightarrow> exn + bool" where
  "py_in h (JArr xs) = Inr (JStr h \<in> set xs)"
| "py_in h (JStr s) = Inr (contains s h)"
| "py_in h (JObj d) = Inr (h \<in> set (map fst d))"
| "py_in h _ = Inl (PyException ''TypeError'')"

text \<open>\<^verbatim>\<open>x or []\<close>.\<close>

definition or_empty_list :: "json \<Rightarrow> json" where
  "or_empty_list x = (if truthy x then x else JArr [])"

text \<open>\<^verbatim>\<open>t > x\<close> for a float \<^verbatim>\<open>t\<close>: defined on numbers and booleans, \<^verbatim>\<open>TypeError\<close> otherwise.\<close>

fun py_float_gt :: "real \<Rightarrow> json \<Rightarrow> exn + bool" where
  "py_float_gt t (JNum x) = Inr (t > x)"
| "py_float_gt t (JBool b) = Inr (t > (if b then 1 else 0))"
| "py_float_gt t _ = Inl (PyException ''TypeError'')"

text \<open>
  \<^verbatim>\<open>bytes.decode('utf-8')\<close>: the bytes are returned when they are well-formed UTF-8
  (no overlong form, no surrogate, nothing above U+10FFFF) and \<^verbatim>\<open>UnicodeDecodeError\<close> is
  raised otherwise.
\<close>

definition cont_byte :: "char \<Rightarrow> bool" where
  "cont_byte c = (128 \<le> (of_char c :: nat) \<and> (of_char c :: nat) < 192)"

definition second_byte :: "nat \<Rightarrow> char \<Rightarrow> bool" where
  "second_byte lead c =
     (if lead = 224 then 160 \<le> (of_char c :: nat) \<and> (of_char c :: nat) < 192
      else if lead = 237 then 128 \<le> (of_char c :: nat) \<and> (of_char c :: nat) < 160
      else if lead = 240 then 144 \<le> (of_char c :: nat) \<and> (of_char c :: nat) < 192
      else if lead = 244 then 128 \<le> (of_char c :: nat) \<and> (of_char c :: nat) < 144
      else cont_byte c)"

fun utf8_valid :: "string \<Rightarrow> bool" where
  "utf8_valid [] = True"
| "utf8_valid [c] = ((of_char c :: nat) < 128)"
| "utf8_valid [c, c1] =
     (if (of_char c :: nat) < 128 then utf8_valid [c1]
      else 194 \<le> (of_char c :: nat) \<and> (of_char c :: nat) < 224 \<and> cont_byte c1)"
| "utf8_valid [c, c1, c2] =
     (if (of_char c :: nat) < 128 then utf8_valid [c1, c2]
      else if 194 \<le> (of_char c :: nat) \<and> (of_char c :: nat) < 224
      then cont_byte c1 \<and> utf8_valid [c2]
      else 224 \<le> (of_char c :: nat) \<and> (of_char c :: nat) < 240 \<and>
           second_byte (of_char c) c1 \<and> cont_byte c2)"
| "utf8_valid (c # c1 # c2 # c3 # r) =
     (if (of_char c :: nat) < 128 then utf8_valid (c1 # c2 # c3 # r)
      else if 194 \<le> (of_char c :: nat) \<and> (of_char c :: nat) < 224
      then cont_byte c1 \<and> utf8_valid (c2 # c3 # r)
      else if 224 \<le> (of_char c :: nat) \<and> (of_char c :: nat) < 240
      then second_byte (of_char c) c1 \<and> cont_byte c2 \<and> utf8_valid (c3 # r)
      else 240 \<le> (of_char c :: nat) \<and> (of_char c :: nat) < 245 \<and>
           second_byte (of_char c) c1 \<and> cont_byte c2 \<and> cont_byte c3 \<and> utf8_valid r)"

definition utf8_decode :: "string \<Rightarrow> exn + string" where
  "utf8_decode bs =
     (if utf8_valid bs then Inr bs else Inl (PyException ''UnicodeDecodeError''))"

subsection \<open>Settings, collaborators and validator state\<close>

record settings =
  jwt_secret_key :: string
  jwt_algorithm :: string
  app_name :: string
  auth_use_local_jwt :: bool
  auth_user_service_url :: "string option"
  auth_jwks_endpoint :: string
  auth_jwt_config_endpoint :: string
  auth_blacklist_endpoint :: string

text \<open>An HTTP response: its status and its body, \<^const>\<open>None\<close> when \<^verbatim>\<open>response.json()\<close> raises.\<close>

record response =
  status_code :: int
  body :: "json option"

text \<open>
  What the module calls but does not define, as parameters: the settings object, the HTTP
  client (\<^verbatim>\<open>client.get(url)\<close> returns a response or raises), \<^verbatim>\<open>jose.jwt.decode\<close> with
  key, algorithm, issuer and audience (the verifying call) and with
  \<^verbatim>\<open>options={"verify_signature": False}\<close> only (the inspecting call),
  \<^verbatim>\<open>JWTService.is_blacklisted\<close>, \<^verbatim>\<open>hashlib.sha256(...).hexdigest()\<close>,
  the clock \<^verbatim>\<open>datetime.utcnow()\<close> (one reading per call, in seconds) and the range of
  timestamps \<^verbatim>\<open>datetime.fromtimestamp\<close> accepts. The inspecting call passes no key.
\<close>

record env =
  cfg :: settings
  http_get :: "string \<Rightarrow> exn + response"
  jwt_decode :: "string \<Rightarrow> string \<Rightarrow> json list \<Rightarrow> json \<Rightarrow> json \<Rightarrow> exn + (string \<times> json) list"
  jwt_decode_unverified :: "string \<Rightarrow> exn + (string \<times> json) list"
  is_blacklisted :: "string \<Rightarrow> exn + bool"
  sha256_hexdigest :: "string \<Rightarrow> string"
  utcnow :: real
  datetime_range :: "real \<Rightarrow> bool"

text \<open>
  The fields of \<^verbatim>\<open>JWTLocalValidator\<close>. \<open>client\<close> is \<^verbatim>\<open>self._client is not None\<close>.
  Two fields record effects and are not fields of the class: \<open>requests\<close> lists the URLs
  requested so far and \<open>store_queries\<close> the tokens passed to
  \<^verbatim>\<open>JWTService.is_blacklisted\<close>.
\<close>

record validator =
  use_local :: bool
  user_service_url :: string
  cache_ttl :: int
  blacklist_cache_ttl :: int
  jwks_cache :: json
  jwks_cache_time :: "real option"
  config_cache :: json
  config_cache_time :: "real option"
  blacklist_cache :: json
  blacklist_cache_time :: "real option"
  client :: bool
  requests :: "string list"
  store_queries :: "string list"

text \<open>\<^verbatim>\<open>JWTLocalValidator.__init__(cache_ttl, blacklist_cache_ttl, use_local)\<close>.\<close>

definition init :: "settings \<Rightarrow> int \<Rightarrow> int \<Rightarrow> bool option \<Rightarrow> validator" where
  "init st ttl bl_ttl ul =
     (let local = (case ul of Some b \<Rightarrow> b | None \<Rightarrow> auth_use_local_jwt st) in
      \<lparr> use_local = local,
        user_service_url =
          (if \<not> local
           then rstrip (CHR ''/'') (case auth_user_service_url st of None \<Rightarrow> [] | Some u \<Rightarrow> u)
           else []),
        cache_ttl = ttl,
        blacklist_cache_ttl = bl_ttl,
        jwks_cache = JNull, jwks_cache_time = None,
        config_cache = JNull, config_cache_time = None,
        blacklist_cache = JNull, blacklist_cache_time = None,
        client = False, requests = [], store_queries = [] \<rparr>)"

text \<open>The defaults of the constructor: \<^verbatim>\<open>cache_ttl=3600, blacklist_cache_ttl=300, use_local=None\<close>.\<close>

definition init_default :: "settings \<Rightarrow> validator" where
  "init_default st = init st 3600 300 None"

definition get_client :: "validator \<Rightarrow> validator" where
  "get_client v = (if \<not> client v then v\<lparr>client := True\<rparr> else v)"

definition get_local_config :: "env \<Rightarrow> json" where
  "get_local_config e =
     JObj [(''algorithm'', JStr (jwt_algorithm (cfg e))),
           (''issuer'', JStr (app_name (cfg e))),
           (''audience'', JStr ''microservices'')]"

definition get_local_jwks :: "env \<Rightarrow> json" where
  "get_local_jwks e =
     JObj [(''keys'', JArr [JObj
       [(''kty'', JStr ''oct''),
        (''k'', JStr (local_jwks_k (jwt_secret_key (cfg e)))),
        (''alg'', JStr (jwt_algorithm (cfg e))),
        (''use'', JStr ''sig''),
        (''kid'', JStr ''user-service-key-1'')]])]"

text \<open>\<^verbatim>\<open>_is_cache_valid\<close>: the one freshness test, against \<^verbatim>\<open>self.cache_ttl\<close>.\<close>

definition is_cache_valid :: "env \<Rightarrow> validator \<Rightarrow> real option \<Rightarrow> bool" where
  "is_cache_valid e v cache_time =
     (case cache_time of
        None \<Rightarrow> False
      | Some t \<Rightarrow> utcnow e - t < real_of_int (cache_ttl v))"


subsection \<open>Fetching trust material and the revocation list\<close>

text \<open>
  \<^verbatim>\<open>_fetch_jwks\<close>: a \<^verbatim>\<open>JWTValidationError\<close> is re-raised, any other exception
  (from the client or from \<^verbatim>\<open>response.json()\<close>) becomes \<^verbatim>\<open>JWKS_FETCH_EXCEPTION\<close>,
  a status other than 200 becomes \<^verbatim>\<open>JWKS_FETCH_ERROR\<close> with the status and the URL.
\<close>

definition fetch_jwks :: "env \<Rightarrow> validator \<Rightarrow> (exn + json) \<times> validator" where
  "fetch_jwks e v =
     (let v1 = get_client v;
          url = user_service_url v1 @ auth_jwks_endpoint (cfg e);
          v2 = v1\<lparr>requests := requests v1 @ [url]\<rparr>
      in case http_get e url of
           Inl (JWTValidationError c d) \<Rightarrow> (Inl (JWTValidationError c d), v2)
         | Inl _ \<Rightarrow> (Inl (JWTValidationError ''JWKS_FETCH_EXCEPTION'' []), v2)
         | Inr r \<Rightarrow>
             if status_code r = 200 then
               (case body r of
                  None \<Rightarrow> (Inl (JWTValidationError ''JWKS_FETCH_EXCEPTION'' []), v2)
                | Some j \<Rightarrow> (Inr j, v2))
             else
               (Inl (JWTValidationError ''JWKS_FETCH_ERROR''
                      [(''status_code'', JNum (real_of_int (status_code r))), (''url'', JStr url)]),
                v2))"

text \<open>\<^verbatim>\<open>_fetch_jwt_config\<close>: as above, returning \<^verbatim>\<open>result.get("data", result)\<close>.\<close>

definition fetch_jwt_config :: "env \<Rightarrow> validator \<Rightarrow> (exn + json) \<times> validator" where
  "fetch_jwt_config e v =
     (let v1 = get_client v;
          url = user_service_url v1 @ auth_jwt_config_endpoint (cfg e);
          v2 = v1\<lparr>requests := requests v1 @ [url]\<rparr>
      in case http_get e url of
           Inl (JWTValidationError c d) \<Rightarrow> (Inl (JWTValidationError c d), v2)
         | Inl _ \<Rightarrow> (Inl (JWTValidationError ''CONFIG_FETCH_EXCEPTION'' []), v2)
         | Inr r \<Rightarrow>
             if status_code r = 200 then
               (case body r of
                  None \<Rightarrow> (Inl (JWTValidationError ''CONFIG_FETCH_EXCEPTION'' []), v2)
                | Some j \<Rightarrow>
                    (case py_get j ''data'' j of
                       Inl _ \<Rightarrow> (Inl (JWTValidationError ''CONFIG_FETCH_EXCEPTION'' []), v2)
                     | Inr c \<Rightarrow> (Inr c, v2)))
             else
               (Inl (JWTValidationError ''CONFIG_FETCH_ERROR''
                      [(''status_code'', JNum (real_of_int (status_code r))), (''url'', JStr url)]),
                v2))"

text \<open>
  \<^verbatim>\<open>_fetch_blacklist\<close>: never raises; every failure (exception, status other than 200,
  a body without the expected shape) yields the empty list.
\<close>

definition fetch_blacklist :: "env \<Rightarrow> validator \<Rightarrow> json \<times> validator" where
  "fetch_blacklist e v =
     (let v1 = get_client v;
          url = user_service_url v1 @ auth_blacklist_endpoint (cfg e);
          v2 = v1\<lparr>requests := requests v1 @ [url]\<rparr>
      in case http_get e url of
           Inl _ \<Rightarrow> (JArr [], v2)
         | Inr r \<Rightarrow>
             if status_code r = 200 then
               (case body r of
                  None \<Rightarrow> (JArr [], v2)
                | Some j \<Rightarrow>
                    (case py_get j ''data'' (JObj []) of
                       Inl _ \<Rightarrow> (JArr [], v2)
                     | Inr d \<Rightarrow>
                         (case py_get d ''blacklisted_tokens'' (JArr []) of
                            Inl _ \<Rightarrow> (JArr [], v2)
                          | Inr b \<Rightarrow> (b, v2))))
             else (JArr [], v2))"

text \<open>\<^verbatim>\<open>_get_blacklist_cache\<close>: freshness is decided by \<^const>\<open>is_cache_valid\<close>.\<close>

definition get_blacklist_cache :: "env \<Rightarrow> validator \<Rightarrow> json \<times> validator" where
  "get_blacklist_cache e v =
     (if \<not> is_cache_valid e v (blacklist_cache_time v) then
        (case fetch_blacklist e v of
           (b, v1) \<Rightarrow>
             (or_empty_list b, v1\<lparr>blacklist_cache := b, blacklist_cache_time := Some (utcnow e)\<rparr>))
      else (or_empty_list (blacklist_cache v), v))"

text \<open>\<^verbatim>\<open>_is_token_blacklisted\<close>: membership of the token's SHA-256 hex digest; an exception gives \<^verbatim>\<open>False\<close>.\<close>

definition is_token_blacklisted :: "env \<Rightarrow> validator \<Rightarrow> string \<Rightarrow> bool \<times> validator" where
  "is_token_blacklisted e v token =
     (case get_blacklist_cache e v of
        (blacklist, v1) \<Rightarrow>
          (case py_in (sha256_hexdigest e token) blacklist of
             Inl _ \<Rightarrow> (False, v1)
           | Inr b \<Rightarrow> (b, v1)))"

definition get_jwks :: "env \<Rightarrow> validator \<Rightarrow> (exn + json) \<times> validator" where
  "get_jwks e v =
     (if use_local v then (Inr (get_local_jwks e), v)
      else if \<not> is_cache_valid e v (jwks_cache_time v) then
        (case fetch_jwks e v of
           (Inl x, v1) \<Rightarrow> (Inl x, v1)
         | (Inr j, v1) \<Rightarrow> (Inr j, v1\<lparr>jwks_cache := j, jwks_cache_time := Some (utcnow e)\<rparr>))
      else (Inr (jwks_cache v), v))"

definition get_jwt_config :: "env \<Rightarrow> validator \<Rightarrow> (exn + json) \<times> validator" where
  "get_jwt_config e v =
     (if use_local v then (Inr (get_local_config e), v)
      else if \<not> is_cache_valid e v (config_cache_time v) then
        (case fetch_jwt_config e v of
           (Inl x, v1) \<Rightarrow> (Inl x, v1)
         | (Inr c, v1) \<Rightarrow> (Inr c, v1\<lparr>config_cache := c, config_cache_time := Some (utcnow e)\<rparr>))
      else (Inr (config_cache v), v))"

subsection \<open>Payload validation and result dictionaries\<close>

text \<open>The loop over \<^verbatim>\<open>required_fields\<close>: the first field missing from the payload.\<close>

fun first_missing :: "string list \<Rightarrow> (string \<times> json) list \<Rightarrow> string option" where
  "first_missing [] payload = None"
| "first_missing (f # fs) payload =
     (if map_of payload f = None then Some f else first_missing fs payload)"

fun is_list :: "json \<Rightarrow> bool" where
  "is_list (JArr xs) = True"
| "is_list _ = False"

text \<open>\<^verbatim>\<open>_validate_payload_fields\<close>: \<^const>\<open>None\<close> when it returns, the exception when it raises.\<close>

definition validate_payload_fields :: "(string \<times> json) list \<Rightarrow> exn option" where
  "validate_payload_fields payload =
     (case first_missing [''sub'', ''username'', ''roles''] payload of
        Some f \<Rightarrow> Some (JWTValidationError ''MISSING_REQUIRED_FIELD'' [(''missing_field'', JStr f)])
      | None \<Rightarrow>
          if \<not> is_list (dict_get payload ''roles'') then
            Some (JWTValidationError ''INVALID_FIELD_TYPE''
                    [(''field'', JStr ''roles''), (''expected_type'', JStr ''list'')])
          else if \<not> truthy (dict_get_default payload ''is_active'' (JBool True)) then
            Some (JWTValidationError ''USER_INACTIVE'' [(''user_id'', dict_get payload ''sub'')])
          else None)"

text \<open>
  The returned dictionaries \<^verbatim>\<open>{"success": ..., "message": ..., "data": {...}}\<close>; the
  human-readable \<^verbatim>\<open>message\<close> is not modelled.
\<close>

record result =
  success :: bool
  data :: "(string \<times> json) list"

definition failure :: "string \<Rightarrow> string \<Rightarrow> (string \<times> json) list \<Rightarrow> result" where
  "failure reason code extra =
     \<lparr> success = False,
       data = [(''valid'', JBool False), (''reason'', JStr reason), (''error_code'', JStr code)] @ extra \<rparr>"

definition use_async_result :: result where
  "use_async_result = failure ''use_async'' ''USE_VERIFY_TOKEN_ASYNC'' []"

definition no_key_result :: result where
  "no_key_result = failure ''no_key'' ''NO_SECRET_KEY'' []"

definition wrong_type_result :: "json \<Rightarrow> result" where
  "wrong_type_result token_type =
     failure ''wrong_token_type'' ''INVALID_TOKEN_TYPE''
       [(''expected_type'', JStr ''access''), (''actual_type'', token_type)]"

definition blacklisted_result :: result where
  "blacklisted_result = failure ''token_blacklisted'' ''TOKEN_BLACKLISTED'' []"

definition success_result :: "(string \<times> json) list \<Rightarrow> result" where
  "success_result payload =
     \<lparr> success = True,
       data =
         [(''valid'', JBool True),
          (''user_id'', dict_get payload ''sub''),
          (''username'', dict_get payload ''username''),
          (''roles'', dict_get_default payload ''roles'' (JArr [])),
          (''email'', dict_get payload ''email''),
          (''phone'', dict_get payload ''phone''),
          (''full_name'', dict_get payload ''full_name''),
          (''is_superuser'', dict_get_default payload ''is_superuser'' (JBool False)),
          (''is_active'', dict_get_default payload ''is_active'' (JBool True)),
          (''exp'', dict_get payload ''exp''),
          (''iat'', dict_get payload ''iat''),
          (''iss'', dict_get payload ''iss''),
          (''aud'', dict_get payload ''aud'')] \<rparr>"

text \<open>
  The three \<^verbatim>\<open>except\<close> clauses shared by \<^verbatim>\<open>verify_token\<close> and
  \<^verbatim>\<open>_verify_token_local_async\<close>, in their order: \<^verbatim>\<open>JWTValidationError\<close>,
  \<^verbatim>\<open>JWTError\<close>, \<^verbatim>\<open>Exception\<close>.
\<close>

fun handle_exception :: "exn \<Rightarrow> result" where
  "handle_exception (JWTValidationError code details) =
     failure ''validation_error'' code [(''details'', JObj details)]"
| "handle_exception JWTError = failure ''jwt_error'' ''JWT_DECODE_ERROR'' []"
| "handle_exception (PyException _) = failure ''exception'' ''VALIDATION_EXCEPTION'' []"

definition error_code :: "result \<Rightarrow> json option" where
  "error_code r = map_of (data r) ''error_code''"


subsection \<open>Verification\<close>

text \<open>
  The key loop of \<^verbatim>\<open>verify_token\<close>: the first key with \<^verbatim>\<open>kty == "oct"\<close> decides.
  Its \<^verbatim>\<open>k\<close> is padded, base64-decoded and UTF-8-decoded; a \<^verbatim>\<open>k\<close> that is not a
  string raises \<^verbatim>\<open>TypeError\<close>. \<^const>\<open>None\<close> is \<^verbatim>\<open>secret_key = None\<close> after the loop.
\<close>

fun key_loop :: "json list \<Rightarrow> exn + string option" where
  "key_loop [] = Inr None"
| "key_loop (key # keys) =
     (case py_get key ''kty'' JNull of
        Inl x \<Rightarrow> Inl x
      | Inr kty \<Rightarrow>
          if kty = JStr ''oct'' then
            (case py_get key ''k'' (JStr []) of
               Inl x \<Rightarrow> Inl x
             | Inr (JStr k) \<Rightarrow>
                 (case urlsafe_b64decode (restore_padding k) of
                    Inl x \<Rightarrow> Inl x
                  | Inr bs \<Rightarrow>
                      (case utf8_decode bs of
                         Inl x \<Rightarrow> Inl x
                       | Inr secret \<Rightarrow> Inr (Some secret)))
             | Inr _ \<Rightarrow> Inl (PyException ''TypeError''))
          else key_loop keys)"

text \<open>
  The first part of the \<^verbatim>\<open>try\<close> block of \<^verbatim>\<open>verify_token\<close>, up to the end of the key
  loop: algorithm, issuer, audience and the selected key.
\<close>

definition trust_material ::
  "env \<Rightarrow> validator \<Rightarrow> (exn + (json \<times> json \<times> json \<times> string option)) \<times> validator" where
  "trust_material e v =
     (case get_jwt_config e v of
        (Inl x, v1) \<Rightarrow> (Inl x, v1)
      | (Inr config, v1) \<Rightarrow>
          (case py_get config ''algorithm'' (JStr ''HS256'') of
             Inl x \<Rightarrow> (Inl x, v1)
           | Inr algorithm \<Rightarrow>
          (case py_get config ''issuer'' JNull of
             Inl x \<Rightarrow> (Inl x, v1)
           | Inr issuer \<Rightarrow>
          (case py_get config ''audience'' JNull of
             Inl x \<Rightarrow> (Inl x, v1)
           | Inr audience \<Rightarrow>
          (case get_jwks e v1 of
             (Inl x, v2) \<Rightarrow> (Inl x, v2)
           | (Inr jwks, v2) \<Rightarrow>
          (case py_get jwks ''keys'' (JArr []) of
             Inl x \<Rightarrow> (Inl x, v2)
           | Inr ks \<Rightarrow>
          (case py_iter ks of
             Inl x \<Rightarrow> (Inl x, v2)
           | Inr keys \<Rightarrow>
          (case key_loop keys of
             Inl x \<Rightarrow> (Inl x, v2)
           | Inr sk \<Rightarrow> (Inr (algorithm, issuer, audience, sk), v2)))))))))"

text \<open>
  The rest of the \<^verbatim>\<open>try\<close> block of \<^verbatim>\<open>verify_token\<close>: \<^verbatim>\<open>jwt.decode\<close>,
  \<^verbatim>\<open>_validate_payload_fields\<close>, the token-type check, the blacklist check, success.
\<close>

definition checks_remote ::
  "env \<Rightarrow> validator \<Rightarrow> string \<Rightarrow> string \<Rightarrow> json \<Rightarrow> json \<Rightarrow> json \<Rightarrow> (exn + result) \<times> validator" where
  "checks_remote e v token key algorithm issuer audience =
     (case jwt_decode e token key [algorithm] issuer audience of
        Inl x \<Rightarrow> (Inl x, v)
      | Inr payload \<Rightarrow>
          (case validate_payload_fields payload of
             Some x \<Rightarrow> (Inl x, v)
           | None \<Rightarrow>
               (let token_type = dict_get payload ''type'' in
                if truthy token_type \<and> token_type \<noteq> JStr ''access''
                then (Inr (wrong_type_result token_type), v)
                else
                  (case is_token_blacklisted e v token of
                     (revoked, v1) \<Rightarrow>
                       if revoked then (Inr blacklisted_result, v1)
                       else (Inr (success_result payload), v1)))))"

definition verify_token_try :: "env \<Rightarrow> validator \<Rightarrow> string \<Rightarrow> (exn + result) \<times> validator" where
  "verify_token_try e v token =
     (case trust_material e v of
        (Inl x, v1) \<Rightarrow> (Inl x, v1)
      | (Inr (algorithm, issuer, audience, sk), v1) \<Rightarrow>
          (case sk of
             None \<Rightarrow> (Inr no_key_result, v1)
           | Some key \<Rightarrow>
               if key = [] then (Inr no_key_result, v1)
               else checks_remote e v1 token key algorithm issuer audience))"

text \<open>
  \<^verbatim>\<open>verify_token\<close>. The result type keeps a summand for an exception that would leave
  the function, so that "never raises" is a statement to prove.
\<close>

definition verify_token :: "env \<Rightarrow> validator \<Rightarrow> string \<Rightarrow> (exn + result) \<times> validator" where
  "verify_token e v token =
     (if use_local v then (Inr use_async_result, v)
      else
        (case verify_token_try e v token of
           (Inl x, v1) \<Rightarrow> (Inr (handle_exception x), v1)
         | (Inr r, v1) \<Rightarrow> (Inr r, v1)))"

text \<open>
  The \<^verbatim>\<open>try\<close> block of \<^verbatim>\<open>_verify_token_local_async\<close>: local configuration and secret,
  the same checks, and \<^verbatim>\<open>await JWTService.is_blacklisted(token)\<close> for revocation.
\<close>

definition verify_token_local_try :: "env \<Rightarrow> validator \<Rightarrow> string \<Rightarrow> (exn + result) \<times> validator" where
  "verify_token_local_try e v token =
     (case py_get (get_local_config e) ''algorithm'' (JStr ''HS256'') of
        Inl x \<Rightarrow> (Inl x, v)
      | Inr algorithm \<Rightarrow>
     (case py_get (get_local_config e) ''issuer'' JNull of
        Inl x \<Rightarrow> (Inl x, v)
      | Inr issuer \<Rightarrow>
     (case py_get (get_local_config e) ''audience'' JNull of
        Inl x \<Rightarrow> (Inl x, v)
      | Inr audience \<Rightarrow>
     (case jwt_decode e token (jwt_secret_key (cfg e)) [algorithm] issuer audience of
        Inl x \<Rightarrow> (Inl x, v)
      | Inr payload \<Rightarrow>
          (case validate_payload_fields payload of
             Some x \<Rightarrow> (Inl x, v)
           | None \<Rightarrow>
               (let token_type = dict_get payload ''type'' in
                if truthy token_type \<and> token_type \<noteq> JStr ''access''
                then (Inr (wrong_type_result token_type), v)
                else
                  (let v1 = v\<lparr>store_queries := store_queries v @ [token]\<rparr> in
                   case is_blacklisted e token of
                     Inl x \<Rightarrow> (Inl x, v1)
                   | Inr revoked \<Rightarrow>
                       if revoked then (Inr blacklisted_result, v1)
                       else (Inr (success_result payload), v1))))))))"

definition verify_token_local_async :: "env \<Rightarrow> validator \<Rightarrow> string \<Rightarrow> (exn + result) \<times> validator" where
  "verify_token_local_async e v token =
     (case verify_token_local_try e v token of
        (Inl x, v1) \<Rightarrow> (Inr (handle_exception x), v1)
      | (Inr r, v1) \<Rightarrow> (Inr r, v1))"

text \<open>
  \<^verbatim>\<open>verify_token_async\<close>; the hand-over of \<^verbatim>\<open>verify_token\<close> to an executor thread is
  modelled as the call itself.
\<close>

definition verify_token_async :: "env \<Rightarrow> validator \<Rightarrow> string \<Rightarrow> (exn + result) \<times> validator" where
  "verify_token_async e v token =
     (if use_local v then verify_token_local_async e v token else verify_token e v token)"

subsection \<open>Inspection without verification\<close>

text \<open>\<^verbatim>\<open>is_token_expired\<close>: only \<^verbatim>\<open>JWTError\<close> is caught.\<close>

definition is_token_expired :: "env \<Rightarrow> string \<Rightarrow> exn + bool" where
  "is_token_expired e token =
     (case jwt_decode_unverified e token of
        Inl JWTError \<Rightarrow> Inr True
      | Inl x \<Rightarrow> Inl x
      | Inr payload \<Rightarrow>
          (let exp = dict_get payload ''exp'' in
           if exp = JNull then Inr True
           else py_float_gt (utcnow e) exp))"

text \<open>
  \<^verbatim>\<open>datetime.fromtimestamp(x)\<close>: a number in range gives the datetime of that timestamp
  (modelled as the timestamp), a number out of range raises, anything else but a number or
  a boolean raises \<^verbatim>\<open>TypeError\<close>.
\<close>

fun fromtimestamp :: "env \<Rightarrow> json \<Rightarrow> exn + real" where
  "fromtimestamp e (JNum x) =
     (if datetime_range e x then Inr x else Inl (PyException ''OverflowError''))"
| "fromtimestamp e (JBool b) = Inr (if b then 1 else 0)"
| "fromtimestamp e _ = Inl (PyException ''TypeError'')"

text \<open>\<^verbatim>\<open>get_token_expiry\<close>: only \<^verbatim>\<open>JWTError\<close> is caught.\<close>

definition get_token_expiry :: "env \<Rightarrow> string \<Rightarrow> exn + real option" where
  "get_token_expiry e token =
     (case jwt_decode_unverified e token of
        Inl JWTError \<Rightarrow> Inr None
      | Inl x \<Rightarrow> Inl x
      | Inr payload \<Rightarrow>
          (let exp = dict_get payload ''exp'' in
           if exp = JNull then Inr None
           else
             (case fromtimestamp e exp of
                Inl x \<Rightarrow> Inl x
              | Inr t \<Rightarrow> Inr (Some t))))"

subsection \<open>Predicates used in the statements\<close>

text \<open>A failure result carries an error code; a success result is marked valid.\<close>

definition structured :: "result \<Rightarrow> bool" where
  "structured r =
     (if success r then map_of (data r) ''valid'' = Some (JBool True)
      else (case error_code r of Some (JStr c) \<Rightarrow> True | _ \<Rightarrow> False))"


text \<open>
  The fields that decide and record revocation checks (and the mode and TTLs) agree in two
  validator states.
\<close>

definition same_revocation_state :: "validator \<Rightarrow> validator \<Rightarrow> bool" where
  "same_revocation_state v v1 =
     (use_local v1 = use_local v \<and> user_service_url v1 = user_service_url v \<and>
      cache_ttl v1 = cache_ttl v \<and> blacklist_cache_ttl v1 = blacklist_cache_ttl v \<and>
      blacklist_cache v1 = blacklist_cache v \<and>
      blacklist_cache_time v1 = blacklist_cache_time v \<and>
      store_queries v1 = store_queries v)"

text \<open>The \<^verbatim>\<open>jwt.decode\<close> call of \<^verbatim>\<open>_verify_token_local_async\<close>, with its arguments.\<close>

definition local_decode :: "env \<Rightarrow> string \<Rightarrow> exn + (string \<times> json) list" where
  "local_decode e token =
     jwt_decode e token (jwt_secret_key (cfg e)) [JStr (jwt_algorithm (cfg e))]
       (JStr (app_name (cfg e))) (JStr ''microservices'')"

subsection \<open>Sample configurations\<close>

text \<open>
  A concrete deployment for the instances below: secret \<^verbatim>\<open>s3cr3t\<close>, algorithm HS256,
  issuer \<^verbatim>\<open>svc\<close>, the default endpoint paths of \<^verbatim>\<open>settings.py\<close>. The token
  \<^verbatim>\<open>tok\<close> stands for a token signed with that secret whose payload is the parameter
  \<open>payload\<close>. The verifying call decodes it when key and algorithm are the signer's, the
  payload's \<^verbatim>\<open>iss\<close> and \<^verbatim>\<open>aud\<close> are the issuer and audience asked for, and its
  \<^verbatim>\<open>exp\<close> is a number not before the clock; it raises \<^verbatim>\<open>JWTError\<close> in every other
  case and on every other token. The inspecting call is made without the key that
  \<^verbatim>\<open>jose.jwt.decode\<close> requires and raises \<^verbatim>\<open>TypeError\<close> on every token. The digest
  function is a stand-in.
\<close>

definition sample_claims_ok :: "(string \<times> json) list \<Rightarrow> json \<Rightarrow> json \<Rightarrow> real \<Rightarrow> bool" where
  "sample_claims_ok payload iss aud now =
     (dict_get payload ''iss'' = iss \<and> dict_get payload ''aud'' = aud \<and>
      (case dict_get payload ''exp'' of JNum x \<Rightarrow> now \<le> x | _ \<Rightarrow> False))"

definition sample_settings :: settings where
  "sample_settings =
     \<lparr> jwt_secret_key = ''s3cr3t'',
       jwt_algorithm = ''HS256'',
       app_name = ''svc'',
       auth_use_local_jwt = True,
       auth_user_service_url = Some ''http://issuer/'',
       auth_jwks_endpoint = ''/api/v1/jwt/.well-known/jwks.json'',
       auth_jwt_config_endpoint = ''/api/v1/jwt/jwt-config'',
       auth_blacklist_endpoint = ''/api/v1/jwt/blacklist'' \<rparr>"

definition sample_env ::
  "(string \<Rightarrow> exn + response) \<Rightarrow> (string \<times> json) list \<Rightarrow> (exn + bool) \<Rightarrow> real \<Rightarrow> env" where
  "sample_env http payload store now =
     \<lparr> cfg = sample_settings,
       http_get = http,
       jwt_decode = (\<lambda>token key algs iss aud.
          if token = ''tok'' \<and> key = ''s3cr3t'' \<and> algs = [JStr ''HS256'']
             \<and> iss = JStr ''svc'' \<and> aud = JStr ''microservices''
             \<and> sample_claims_ok payload iss aud now
          then Inr payload else Inl JWTError),
       jwt_decode_unverified = (\<lambda>token. Inl (PyException ''TypeError'')),
       is_blacklisted = (\<lambda>token. store),
       sha256_hexdigest = (\<lambda>token. ''sha256:'' @ token),
       utcnow = now,
       datetime_range = (\<lambda>x. 0 \<le> x \<and> x \<le> 253402300799) \<rparr>"

definition ok_response :: "json \<Rightarrow> exn + response" where
  "ok_response j = Inr \<lparr> status_code = 200, body = Some j \<rparr>"

definition error_response :: "int \<Rightarrow> exn + response" where
  "error_response n = Inr \<lparr> status_code = n, body = None \<rparr>"

definition sample_http ::
  "(exn + response) \<Rightarrow> (exn + response) \<Rightarrow> (exn + response) \<Rightarrow> string \<Rightarrow> exn + response" where
  "sample_http config_r jwks_r blacklist_r url =
     (if url = ''http://issuer/api/v1/jwt/jwt-config'' then config_r
      else if url = ''http://issuer/api/v1/jwt/.well-known/jwks.json'' then jwks_r
      else if url = ''http://issuer/api/v1/jwt/blacklist'' then blacklist_r
      else Inl (PyException ''ConnectError''))"

definition sample_config_doc :: json where
  "sample_config_doc =
     JObj [(''algorithm'', JStr ''HS256''), (''issuer'', JStr ''svc''),
           (''audience'', JStr ''microservices'')]"

definition sample_jwks_doc :: json where
  "sample_jwks_doc =
     JObj [(''keys'', JArr [JObj [(''kty'', JStr ''oct''), (''k'', JStr ''czNjcjN0''),
                                  (''alg'', JStr ''HS256'')]])]"

definition sample_revocations :: "string list \<Rightarrow> json" where
  "sample_revocations hs = JObj [(''data'', JObj [(''blacklisted_tokens'', JArr (map JStr hs))])]"

definition sample_payload :: "(string \<times> json) list" where
  "sample_payload =
     [(''sub'', JStr ''u1''), (''username'', JStr ''alice''),
      (''roles'', JArr [JStr ''admin'']), (''iat'', JNum 900), (''exp'', JNum 5000),
      (''iss'', JStr ''svc''), (''aud'', JStr ''microservices'')]"

definition sample_remote :: validator where
  "sample_remote = init sample_settings 3600 300 (Some False)"

definition sample_local :: validator where
  "sample_local = init_default sample_settings"

text \<open>The remote sample validator after it has fetched configuration and key set at time \<open>now\<close>.\<close>

definition sample_remote_ready :: "real \<Rightarrow> validator" where
  "sample_remote_ready now =
     sample_remote\<lparr>jwks_cache := sample_jwks_doc, jwks_cache_time := Some now,
       config_cache := sample_config_doc, config_cache_time := Some now, client := True,
       requests := [''http://issuer/api/v1/jwt/jwt-config'',
                    ''http://issuer/api/v1/jwt/.well-known/jwks.json'']\<rparr>"

section \<open>Properties\<close>

subsection \<open>The key encoding round trip\<close>

lemma all64: "list_all (\<lambda>n. b64_value (urlsafe_decode_translation (urlsafe_encode_translation (b64_char n))) = Some n
   \<and> urlsafe_encode_translation (b64_char n) \<noteq> CHR ''=''
   \<and> urlsafe_decode_translation (urlsafe_encode_translation (b64_char n)) \<noteq> CHR ''=''
   \<and> (of_char (urlsafe_encode_translation (b64_char n)) :: nat) < 128) [0..<64]"
  by code_simp

lemma sextet_char:
  assumes "n < 64"
  shows "b64_value (urlsafe_decode_translation (urlsafe_encode_translation (b64_char n))) = Some n"
    and "urlsafe_encode_translation (b64_char n) \<noteq> CHR ''=''"
    and "urlsafe_decode_translation (urlsafe_encode_translation (b64_char n)) \<noteq> CHR ''=''"
    and "(of_char (urlsafe_encode_translation (b64_char n)) :: nat) < 128"
  using all64 assms by (simp_all add: list_all_iff)

lemma byte_lt: "(of_char a :: nat) < 256"
  by (rule nat_of_char_less_256)

lemma div_mod_small:
  fixes q r n :: nat
  assumes "r < n"
  shows "(q * n + r) div n = q" and "(q * n + r) mod n = r"
  using assms by simp_all

lemma byte_div16: "(of_char b :: nat) div 16 < 16"
  using byte_lt[of b] by (simp add: less_mult_imp_div_less)

lemma byte_div64: "(of_char b :: nat) div 64 < 4"
  using byte_lt[of b] by (simp add: less_mult_imp_div_less)

lemma byte_div4: "(of_char b :: nat) div 4 < 64"
  using byte_lt[of b] by (simp add: less_mult_imp_div_less)

lemma sextet_bounds:
  "((of_char a :: nat) mod 4) * 16 + (of_char b :: nat) div 16 < 64"
  "((of_char b :: nat) mod 16) * 4 + (of_char c :: nat) div 64 < 64"
  "((of_char a :: nat) mod 4) * 16 < 64"
  "((of_char b :: nat) mod 16) * 4 < 64"
  "(of_char c :: nat) mod 64 < 64"
proof -
  have m4: "(of_char a :: nat) mod 4 \<le> 3" by simp
  have m16: "(of_char b :: nat) mod 16 \<le> 15" by simp
  show "((of_char a :: nat) mod 4) * 16 + (of_char b :: nat) div 16 < 64"
    using m4 byte_div16[of b] by linarith
  show "((of_char b :: nat) mod 16) * 4 + (of_char c :: nat) div 64 < 64"
    using m16 byte_div64[of c] by linarith
  show "((of_char a :: nat) mod 4) * 16 < 64" using m4 by linarith
  show "((of_char b :: nat) mod 16) * 4 < 64" using m16 by linarith
  show "(of_char c :: nat) mod 64 < 64" by simp
qed

lemma regroup1:
  "char_of (((of_char a :: nat) div 4) * 4 + ((of_char a mod 4) * 16 + (of_char b :: nat) div 16) div 16) = a"
proof -
  have "((of_char a mod 4) * 16 + (of_char b :: nat) div 16) div 16 = (of_char a :: nat) mod 4"
    using byte_div16[of b] by (rule div_mod_small(1))
  then show ?thesis by simp
qed

lemma regroup2:
  "char_of ((((of_char a :: nat) mod 4) * 16 + (of_char b :: nat) div 16) mod 16 * 16
       + ((of_char b mod 16) * 4 + (of_char c :: nat) div 64) div 4) = b"
proof -
  have 1: "(((of_char a :: nat) mod 4) * 16 + (of_char b :: nat) div 16) mod 16 = (of_char b :: nat) div 16"
    using byte_div16[of b] by (rule div_mod_small(2))
  have 2: "((of_char b mod 16) * 4 + (of_char c :: nat) div 64) div 4 = (of_char b :: nat) mod 16"
    using byte_div64[of c] by (rule div_mod_small(1))
  show ?thesis unfolding 1 2 by simp
qed

lemma regroup3:
  "char_of ((((of_char b :: nat) mod 16) * 4 + (of_char c :: nat) div 64) mod 4 * 64 + of_char c mod 64) = c"
proof -
  have 1: "(((of_char b :: nat) mod 16) * 4 + (of_char c :: nat) div 64) mod 4 = (of_char c :: nat) div 64"
    using byte_div64[of c] by (rule div_mod_small(2))
  show ?thesis unfolding 1 by simp
qed

lemma regroup4:
  "char_of (((of_char a :: nat) div 4) * 4 + ((of_char a mod 4) * 16) div 16) = a"
  by simp

lemma regroup5:
  "char_of ((((of_char a :: nat) mod 4) * 16 + (of_char b :: nat) div 16) mod 16 * 16
       + ((of_char b mod 16) * 4) div 4) = b"
proof -
  have 1: "(((of_char a :: nat) mod 4) * 16 + (of_char b :: nat) div 16) mod 16 = (of_char b :: nat) div 16"
    using byte_div16[of b] by (rule div_mod_small(2))
  show ?thesis unfolding 1 by simp
qed

lemma a2b_sextet:
  assumes "n < 64"
  shows "a2b_loop (urlsafe_decode_translation (urlsafe_encode_translation (b64_char n)) # cs) 0 lc pads out =
           a2b_loop cs 1 n 0 out"
    and "a2b_loop (urlsafe_decode_translation (urlsafe_encode_translation (b64_char n)) # cs) 1 lc pads out =
           a2b_loop cs 2 (n mod 16) 0 (out @ [char_of (lc * 4 + n div 16)])"
    and "a2b_loop (urlsafe_decode_translation (urlsafe_encode_translation (b64_char n)) # cs) 2 lc pads out =
           a2b_loop cs 3 (n mod 4) 0 (out @ [char_of (lc * 16 + n div 4)])"
    and "a2b_loop (urlsafe_decode_translation (urlsafe_encode_translation (b64_char n)) # cs) 3 lc pads out =
           a2b_loop cs 0 0 0 (out @ [char_of (lc * 64 + n)])"
  using sextet_char(1,3)[OF assms] by simp_all

lemma a2b_pad:
  "a2b_loop (CHR ''='' # cs) qp lc pads out =
     (if 2 \<le> qp \<and> 4 \<le> qp + (pads + 1) then Inr out
      else a2b_loop cs qp lc (if 2 \<le> qp then pads + 1 else pads) out)"
  by simp

lemma a2b_nil: "a2b_loop [] 0 lc pads out = Inr out"
  by simp

lemma dec_pad: "urlsafe_decode_translation (CHR ''='') = CHR ''=''"
  by (simp add: urlsafe_decode_translation_def)

lemma restore_padding_quad:
  "restore_padding (c0 # c1 # c2 # c3 # k) = c0 # c1 # c2 # c3 # restore_padding k"
  by (simp add: restore_padding_def)

lemma a2b_quad:
  "a2b_loop (map urlsafe_decode_translation
      (urlsafe_encode_translation (b64_char (of_char a div 4)) #
       urlsafe_encode_translation (b64_char ((of_char a mod 4) * 16 + of_char b div 16)) #
       urlsafe_encode_translation (b64_char ((of_char b mod 16) * 4 + of_char c div 64)) #
       urlsafe_encode_translation (b64_char (of_char c mod 64)) # cs)) 0 0 0 out =
   a2b_loop (map urlsafe_decode_translation cs) 0 0 0 (out @ [a, b, c])"
  by (simp only: list.map a2b_sextet(1)[OF byte_div4] a2b_sextet(2)[OF sextet_bounds(1)]
        a2b_sextet(3)[OF sextet_bounds(2)] a2b_sextet(4)[OF sextet_bounds(5)]
        regroup1 regroup2 regroup3 append_assoc append.simps)

lemma a2b_tail2:
  "a2b_loop (map urlsafe_decode_translation
      [urlsafe_encode_translation (b64_char (of_char a div 4)),
       urlsafe_encode_translation (b64_char ((of_char a mod 4) * 16 + of_char b div 16)),
       urlsafe_encode_translation (b64_char ((of_char b mod 16) * 4)), CHR ''='']) 0 0 0 out =
   Inr (out @ [a, b])"
  by (simp only: list.map a2b_sextet(1)[OF byte_div4] a2b_sextet(2)[OF sextet_bounds(1)]
        a2b_sextet(3)[OF sextet_bounds(4)] dec_pad a2b_pad
        regroup1 regroup5 append_assoc append.simps) simp

lemma a2b_tail1:
  "a2b_loop (map urlsafe_decode_translation
      [urlsafe_encode_translation (b64_char (of_char a div 4)),
       urlsafe_encode_translation (b64_char ((of_char a mod 4) * 16)), CHR ''='', CHR ''='']) 0 0 0 out =
   Inr (out @ [a])"
  by (simp only: list.map a2b_sextet(1)[OF byte_div4] a2b_sextet(2)[OF sextet_bounds(3)]
        dec_pad a2b_pad regroup4 append_assoc append.simps) simp

lemma a2b_tail0:
  "a2b_loop (map urlsafe_decode_translation [CHR ''='', CHR ''='', CHR ''='', CHR ''='']) 0 0 0 out =
   Inr out"
  by (simp only: list.map dec_pad a2b_pad) simp

lemma replicate_4: "replicate 4 x = [x, x, x, x]"
  by (simp add: numeral_eq_Suc)

lemma replicate_2: "replicate 2 x = [x, x]"
  by (simp add: numeral_eq_Suc)

lemma decode_enc_unpadded:
  "a2b_loop (map urlsafe_decode_translation (restore_padding (enc_unpadded s))) 0 0 0 out = Inr (out @ s)"
proof (induction s arbitrary: out rule: enc_unpadded.induct)
  case (1 a b c rest)
  have eq: "restore_padding (enc_unpadded (a # b # c # rest)) =
       urlsafe_encode_translation (b64_char (of_char a div 4)) #
       urlsafe_encode_translation (b64_char ((of_char a mod 4) * 16 + of_char b div 16)) #
       urlsafe_encode_translation (b64_char ((of_char b mod 16) * 4 + of_char c div 64)) #
       urlsafe_encode_translation (b64_char (of_char c mod 64)) #
       restore_padding (enc_unpadded rest)"
    by (simp add: restore_padding_quad)
  show ?case
    unfolding eq a2b_quad using "1.IH"[of "out @ [a, b, c]"] by (simp del: a2b_loop.simps)
next
  case (2 a b)
  have "restore_padding (enc_unpadded [a, b]) =
     [urlsafe_encode_translation (b64_char (of_char a div 4)),
      urlsafe_encode_translation (b64_char ((of_char a mod 4) * 16 + of_char b div 16)),
      urlsafe_encode_translation (b64_char ((of_char b mod 16) * 4)), CHR ''='']"
    by (simp add: restore_padding_def)
  then show ?case using a2b_tail2[of a b out] by (simp del: a2b_loop.simps)
next
  case (3 a)
  have "restore_padding (enc_unpadded [a]) =
     [urlsafe_encode_translation (b64_char (of_char a div 4)),
      urlsafe_encode_translation (b64_char ((of_char a mod 4) * 16)), CHR ''='', CHR ''='']"
    by (simp add: restore_padding_def replicate_2)
  then show ?case using a2b_tail1[of a out] by (simp del: a2b_loop.simps)
next
  case 4
  have "restore_padding (enc_unpadded []) = [CHR ''='', CHR ''='', CHR ''='', CHR ''='']"
    by (simp add: restore_padding_def replicate_4)
  then show ?case using a2b_tail0[of out] by (simp del: a2b_loop.simps)
qed

lemma enc_unpadded_no_pad: "CHR ''='' \<notin> set (enc_unpadded s)"
proof (induction s rule: enc_unpadded.induct)
  case (1 a b c rest)
  then show ?case
    using sextet_char(2)[OF byte_div4[of a]] sextet_char(2)[OF sextet_bounds(1)[of a b]]
      sextet_char(2)[OF sextet_bounds(2)[of b c]] sextet_char(2)[OF sextet_bounds(5)[of c]]
    by auto
next
  case (2 a b)
  then show ?case
    using sextet_char(2)[OF byte_div4[of a]] sextet_char(2)[OF sextet_bounds(1)[of a b]]
      sextet_char(2)[OF sextet_bounds(4)[of b]]
    by auto
next
  case (3 a)
  then show ?case
    using sextet_char(2)[OF byte_div4[of a]] sextet_char(2)[OF sextet_bounds(3)[of a]]
    by auto
next
  case 4
  then show ?case by simp
qed

lemma enc_unpadded_ascii: "list_all (\<lambda>c. (of_char c :: nat) < 128) (enc_unpadded s)"
  by (induction s rule: enc_unpadded.induct)
     (simp_all add: sextet_char(4) byte_div4 sextet_bounds)

lemma rstrip_append_pads:
  "CHR ''='' \<notin> set xs \<Longrightarrow> rstrip (CHR ''='') (xs @ replicate p (CHR ''='')) = xs"
proof -
  assume a: "CHR ''='' \<notin> set xs"
  have "dropWhile (\<lambda>c. c = CHR ''='') (replicate p (CHR ''='') @ rev xs) = rev xs"
  proof (induction p)
    case 0
    show ?case using a by (cases "rev xs") (auto simp: dropWhile_eq_Cons_conv)
  next
    case (Suc p)
    then show ?case by simp
  qed
  then show ?thesis by (simp add: rstrip_def)
qed

lemma urlsafe_b64encode_split:
  "\<exists>p. urlsafe_b64encode s = enc_unpadded s @ replicate p (CHR ''='')"
proof (induction s rule: enc_unpadded.induct)
  case (1 a b c rest)
  then show ?case by (auto simp: urlsafe_b64encode_def)
next
  case (2 a b)
  have "urlsafe_b64encode [a, b] = enc_unpadded [a, b] @ replicate 1 (CHR ''='')"
    by (simp add: urlsafe_b64encode_def urlsafe_encode_translation_def)
  then show ?case by blast
next
  case (3 a)
  have "urlsafe_b64encode [a] = enc_unpadded [a] @ replicate 2 (CHR ''='')"
    by (simp add: urlsafe_b64encode_def urlsafe_encode_translation_def replicate_2)
  then show ?case by blast
next
  case 4
  have "urlsafe_b64encode [] = enc_unpadded [] @ replicate 0 (CHR ''='')"
    by (simp add: urlsafe_b64encode_def)
  then show ?case by blast
qed

lemma local_jwks_k_unpadded: "local_jwks_k s = enc_unpadded s"
proof -
  obtain p where "urlsafe_b64encode s = enc_unpadded s @ replicate p (CHR ''='')"
    using urlsafe_b64encode_split by blast
  then show ?thesis
    by (simp add: local_jwks_k_def rstrip_append_pads enc_unpadded_no_pad)
qed

lemma restore_padding_ascii:
  "list_all (\<lambda>c. (of_char c :: nat) < 128) k \<Longrightarrow>
   list_all (\<lambda>c. (of_char c :: nat) < 128) (restore_padding k)"
  by (simp add: restore_padding_def list_all_iff)

text \<open>
  Claim C10. For every signing secret, the unpadded base64url value that
  \<^verbatim>\<open>_get_local_jwks\<close> publishes, once padded by the key loop of \<^verbatim>\<open>verify_token\<close>
  with \<^verbatim>\<open>"=" * (4 - len(k) % 4)\<close> (four pad characters when the length is a multiple of
  four) and decoded with \<^verbatim>\<open>urlsafe_b64decode\<close>, is the secret's bytes again.
\<close>

theorem key_encoding_round_trip:
  "urlsafe_b64decode (restore_padding (local_jwks_k secret)) = Inr secret"
  using decode_enc_unpadded[of secret "[]"]
  by (simp add: urlsafe_b64decode_def local_jwks_k_unpadded restore_padding_ascii enc_unpadded_ascii)

theorem key_encoding_round_trip_witness:
  "urlsafe_b64decode (restore_padding (local_jwks_k ''s3cr3t'')) = Inr ''s3cr3t''"
  using key_encoding_round_trip [of "''s3cr3t''"] by simp

subsection \<open>Results are structured\<close>

lemma structured_failure: "structured (failure reason code extra)"
  by (simp add: structured_def failure_def error_code_def)

lemma structured_handle_exception: "structured (handle_exception x)"
  by (cases x) (simp_all add: structured_failure)

lemma structured_success_result: "structured (success_result payload)"
  by (simp add: structured_def success_result_def)

lemma checks_remote_structured:
  "checks_remote e v token key algorithm issuer audience = (Inr r, v1) \<Longrightarrow> structured r"
  by (auto simp: checks_remote_def Let_def wrong_type_result_def blacklisted_result_def
        structured_failure structured_success_result
      split: sum.splits option.splits if_splits prod.splits)

lemma verify_token_try_structured:
  "verify_token_try e v token = (Inr r, v1) \<Longrightarrow> structured r"
  by (auto simp: verify_token_try_def no_key_result_def structured_failure
      dest: checks_remote_structured
      split: sum.splits option.splits if_splits prod.splits)

lemma verify_token_local_try_structured:
  "verify_token_local_try e v token = (Inr r, v1) \<Longrightarrow> structured r"
  by (auto simp: verify_token_local_try_def get_local_config_def Let_def wrong_type_result_def
        blacklisted_result_def structured_failure structured_success_result
      split: sum.splits option.splits if_splits prod.splits)

lemma verify_token_total:
  "\<exists>r. fst (verify_token e v token) = Inr r \<and> structured r"
  by (auto simp: verify_token_def use_async_result_def structured_failure
        structured_handle_exception
      dest: verify_token_try_structured
      split: sum.splits prod.splits)

lemma verify_token_local_async_total:
  "\<exists>r. fst (verify_token_local_async e v token) = Inr r \<and> structured r"
  by (auto simp: verify_token_local_async_def structured_handle_exception
      dest: verify_token_local_try_structured
      split: sum.splits prod.splits)

lemma verify_token_async_total:
  "\<exists>r. fst (verify_token_async e v token) = Inr r \<and> structured r"
  using verify_token_total verify_token_local_async_total
  by (simp add: verify_token_async_def)

lemma unexpected_remote:
  "\<not> use_local v \<Longrightarrow> verify_token_try e v token = (Inl (PyException n), v1) \<Longrightarrow>
   verify_token e v token = (Inr (failure ''exception'' ''VALIDATION_EXCEPTION'' []), v1)"
  by (simp add: verify_token_def)

lemma unexpected_local:
  "verify_token_local_try e v token = (Inl (PyException n), v1) \<Longrightarrow>
   verify_token_local_async e v token = (Inr (failure ''exception'' ''VALIDATION_EXCEPTION'' []), v1)"
  by (simp add: verify_token_local_async_def)

subsection \<open>What fetching trust material leaves alone\<close>


lemma same_revocation_state_refl: "same_revocation_state v v"
  by (simp add: same_revocation_state_def)

lemma same_revocation_state_trans:
  "same_revocation_state v v1 \<Longrightarrow> same_revocation_state v1 v2 \<Longrightarrow> same_revocation_state v v2"
  by (simp add: same_revocation_state_def)

lemma fetch_jwks_same: "fetch_jwks e v = (r, v1) \<Longrightarrow> same_revocation_state v v1"
  by (auto simp: fetch_jwks_def Let_def get_client_def same_revocation_state_def
      split: sum.splits exn.splits if_splits option.splits)

lemma fetch_jwt_config_same: "fetch_jwt_config e v = (r, v1) \<Longrightarrow> same_revocation_state v v1"
  by (auto simp: fetch_jwt_config_def Let_def get_client_def same_revocation_state_def
      split: sum.splits exn.splits if_splits option.splits)

lemma get_jwks_same: "get_jwks e v = (r, v1) \<Longrightarrow> same_revocation_state v v1"
proof (cases "fetch_jwks e v")
  case (Pair a b)
  assume g: "get_jwks e v = (r, v1)"
  have s: "same_revocation_state v b" using Pair by (rule fetch_jwks_same)
  show ?thesis
    using g Pair s
    by (auto simp: get_jwks_def same_revocation_state_def split: if_splits sum.splits)
qed

lemma get_jwt_config_same: "get_jwt_config e v = (r, v1) \<Longrightarrow> same_revocation_state v v1"
proof (cases "fetch_jwt_config e v")
  case (Pair a b)
  assume g: "get_jwt_config e v = (r, v1)"
  have s: "same_revocation_state v b" using Pair by (rule fetch_jwt_config_same)
  show ?thesis
    using g Pair s
    by (auto simp: get_jwt_config_def same_revocation_state_def split: if_splits sum.splits)
qed

lemma trust_material_same: "trust_material e v = (r, v2) \<Longrightarrow> same_revocation_state v v2"
proof -
  assume t: "trust_material e v = (r, v2)"
  obtain c v1 where c: "get_jwt_config e v = (c, v1)" by (cases "get_jwt_config e v")
  obtain j v1' where j: "get_jwks e v1 = (j, v1')" by (cases "get_jwks e v1")
  have s1: "same_revocation_state v v1" using c by (rule get_jwt_config_same)
  have s2: "same_revocation_state v1 v1'" using j by (rule get_jwks_same)
  have "v2 = v1 \<or> v2 = v1'"
    using t c j by (auto simp: trust_material_def split: sum.splits)
  then show ?thesis using s1 s2 same_revocation_state_trans by blast
qed

subsection \<open>The blocking entry point in Local mode\<close>

lemma verify_token_local_sentinel:
  "use_local v \<Longrightarrow> verify_token e v token = (Inr use_async_result, v)"
  by (simp add: verify_token_def)

lemma use_async_result_code:
  "\<not> success use_async_result \<and> error_code use_async_result = Some (JStr ''USE_VERIFY_TOKEN_ASYNC'')"
  by (simp add: use_async_result_def failure_def error_code_def)

subsection \<open>The checks after key selection, stage by stage\<close>

lemma checks_remote_decode_fails:
  "jwt_decode e token key [algorithm] issuer audience = Inl x \<Longrightarrow>
   checks_remote e v token key algorithm issuer audience = (Inl x, v)"
  by (simp add: checks_remote_def)

lemma checks_remote_invalid_payload:
  "jwt_decode e token key [algorithm] issuer audience = Inr payload \<Longrightarrow>
   validate_payload_fields payload = Some x \<Longrightarrow>
   checks_remote e v token key algorithm issuer audience = (Inl x, v)"
  by (simp add: checks_remote_def)

lemma checks_remote_wrong_type:
  "jwt_decode e token key [algorithm] issuer audience = Inr payload \<Longrightarrow>
   validate_payload_fields payload = None \<Longrightarrow>
   truthy (dict_get payload ''type'') \<Longrightarrow> dict_get payload ''type'' \<noteq> JStr ''access'' \<Longrightarrow>
   checks_remote e v token key algorithm issuer audience =
     (Inr (wrong_type_result (dict_get payload ''type'')), v)"
  by (simp add: checks_remote_def)

lemma checks_remote_revocation:
  "jwt_decode e token key [algorithm] issuer audience = Inr payload \<Longrightarrow>
   validate_payload_fields payload = None \<Longrightarrow>
   \<not> (truthy (dict_get payload ''type'') \<and> dict_get payload ''type'' \<noteq> JStr ''access'') \<Longrightarrow>
   checks_remote e v token key algorithm issuer audience =
     (if fst (is_token_blacklisted e v token) then Inr blacklisted_result
      else Inr (success_result payload), snd (is_token_blacklisted e v token))"
  by (auto simp: checks_remote_def Let_def split: prod.splits)

lemma verify_token_with_key:
  "\<not> use_local v \<Longrightarrow> trust_material e v = (Inr (algorithm, issuer, audience, Some key), v1) \<Longrightarrow>
   key \<noteq> [] \<Longrightarrow>
   verify_token e v token =
     (case checks_remote e v1 token key algorithm issuer audience of
        (Inl x, v2) \<Rightarrow> (Inr (handle_exception x), v2)
      | (Inr r, v2) \<Rightarrow> (Inr r, v2))"
  by (simp add: verify_token_def verify_token_try_def)

lemma local_config_gets:
  "py_get (get_local_config e) ''algorithm'' (JStr ''HS256'') = Inr (JStr (jwt_algorithm (cfg e)))"
  "py_get (get_local_config e) ''issuer'' JNull = Inr (JStr (app_name (cfg e)))"
  "py_get (get_local_config e) ''audience'' JNull = Inr (JStr ''microservices'')"
  by (simp_all add: get_local_config_def dict_get_default_def)


lemma local_decode_fails:
  "local_decode e token = Inl x \<Longrightarrow>
   verify_token_local_async e v token = (Inr (handle_exception x), v)"
  by (simp add: verify_token_local_async_def verify_token_local_try_def local_config_gets
        local_decode_def)

lemma local_invalid_payload:
  "local_decode e token = Inr payload \<Longrightarrow> validate_payload_fields payload = Some x \<Longrightarrow>
   verify_token_local_async e v token = (Inr (handle_exception x), v)"
  by (simp add: verify_token_local_async_def verify_token_local_try_def local_config_gets
        local_decode_def)

lemma local_wrong_type:
  "local_decode e token = Inr payload \<Longrightarrow> validate_payload_fields payload = None \<Longrightarrow>
   truthy (dict_get payload ''type'') \<Longrightarrow> dict_get payload ''type'' \<noteq> JStr ''access'' \<Longrightarrow>
   verify_token_local_async e v token = (Inr (wrong_type_result (dict_get payload ''type'')), v)"
  by (simp add: verify_token_local_async_def verify_token_local_try_def local_config_gets
        local_decode_def)

lemma local_revocation:
  "local_decode e token = Inr payload \<Longrightarrow> validate_payload_fields payload = None \<Longrightarrow>
   \<not> (truthy (dict_get payload ''type'') \<and> dict_get payload ''type'' \<noteq> JStr ''access'') \<Longrightarrow>
   verify_token_local_async e v token =
     (case is_blacklisted e token of
        Inl x \<Rightarrow> Inr (handle_exception x)
      | Inr revoked \<Rightarrow> if revoked then Inr blacklisted_result else Inr (success_result payload),
      v\<lparr>store_queries := store_queries v @ [token]\<rparr>)"
  by (auto simp: verify_token_local_async_def verify_token_local_try_def local_config_gets
        local_decode_def Let_def split: sum.splits)

subsection \<open>Evaluating the sample configurations\<close>

lemmas sample_defs =
  sample_settings_def sample_env_def sample_claims_ok_def ok_response_def error_response_def
  sample_http_def sample_config_doc_def sample_jwks_doc_def sample_revocations_def sample_payload_def
  sample_remote_def sample_local_def init_def init_default_def rstrip_def

lemmas fetch_defs =
  get_client_def is_cache_valid_def fetch_jwks_def fetch_jwt_config_def fetch_blacklist_def
  get_blacklist_cache_def is_token_blacklisted_def get_jwks_def get_jwt_config_def
  dict_get_def dict_get_default_def or_empty_list_def Let_def

lemmas verify_defs =
  trust_material_def checks_remote_def verify_token_try_def verify_token_def
  verify_token_local_try_def verify_token_local_async_def verify_token_async_def
  validate_payload_fields_def get_local_config_def local_decode_def
  failure_def use_async_result_def no_key_result_def wrong_type_result_def
  blacklisted_result_def success_result_def error_code_def

lemma sample_key: "urlsafe_b64decode (restore_padding ''czNjcjN0'') = Inr ''s3cr3t''"
proof -
  have "local_jwks_k ''s3cr3t'' = ''czNjcjN0''" by code_simp
  then show ?thesis using decode_enc_unpadded[of "''s3cr3t''" "[]"] 
    by (simp add: urlsafe_b64decode_def local_jwks_k_unpadded[symmetric] restore_padding_ascii enc_unpadded_ascii del: enc_unpadded.simps a2b_loop.simps)
qed

lemma sample_utf8: "utf8_decode ''s3cr3t'' = Inr ''s3cr3t''"
  by (simp add: utf8_decode_def)

lemma sample_trust_material:
  "trust_material
     (sample_env (sample_http (ok_response sample_config_doc) (ok_response sample_jwks_doc) bl) p st now)
     sample_remote =
   (Inr (JStr ''HS256'', JStr ''svc'', JStr ''microservices'', Some ''s3cr3t''),
    sample_remote\<lparr>jwks_cache := sample_jwks_doc, jwks_cache_time := Some now,
      config_cache := sample_config_doc, config_cache_time := Some now, client := True,
      requests := [''http://issuer/api/v1/jwt/jwt-config'',
                   ''http://issuer/api/v1/jwt/.well-known/jwks.json'']\<rparr>)"
  by (simp add: sample_defs fetch_defs trust_material_def sample_key sample_utf8)

subsection \<open>Claims about the public surface\<close>

text \<open>
  Claim C6. In Local mode the blocking entry point \<^verbatim>\<open>verify_token\<close> returns, for every
  token and whatever the collaborators would answer, the sentinel rejection with error code
  \<^verbatim>\<open>USE_VERIFY_TOKEN_ASYNC\<close>, and leaves the validator state as it was: no request is
  made, no cache is read or written, the revocation store is not queried.
\<close>

theorem local_mode_blocking_sentinel:
  "use_local v \<Longrightarrow>
     verify_token e v token = (Inr use_async_result, v) \<and>
     \<not> success use_async_result \<and>
     error_code use_async_result = Some (JStr ''USE_VERIFY_TOKEN_ASYNC'')"
  using verify_token_local_sentinel use_async_result_code by simp

theorem local_mode_blocking_sentinel_witness:
  "use_local sample_local \<and>
   verify_token (sample_env (\<lambda>u. ok_response JNull) sample_payload (Inr False) 1000)
     sample_local ''tok'' = (Inr use_async_result, sample_local)"
  using local_mode_blocking_sentinel
    [of sample_local "sample_env (\<lambda>u. ok_response JNull) sample_payload (Inr False) 1000" "''tok''"]
  by (simp add: sample_local_def init_default_def init_def sample_settings_def)

text \<open>
  Claim C9. For every token and in both modes \<^verbatim>\<open>verify_token\<close> and
  \<^verbatim>\<open>verify_token_async\<close> return a result and raise nothing: the result carries the
  success flag, a failure carries an error code, and an exception of any other class raised
  inside the \<^verbatim>\<open>try\<close> block comes back as \<^verbatim>\<open>VALIDATION_EXCEPTION\<close>.
\<close>

theorem verification_never_raises:
  "(\<exists>r. fst (verify_token e v token) = Inr r \<and> structured r) \<and>
   (\<exists>r. fst (verify_token_async e v token) = Inr r \<and> structured r) \<and>
   (\<forall>n v1. \<not> use_local v \<and> verify_token_try e v token = (Inl (PyException n), v1) \<longrightarrow>
      verify_token e v token = (Inr (failure ''exception'' ''VALIDATION_EXCEPTION'' []), v1) \<and>
      verify_token_async e v token = (Inr (failure ''exception'' ''VALIDATION_EXCEPTION'' []), v1)) \<and>
   (\<forall>n v1. use_local v \<and> verify_token_local_try e v token = (Inl (PyException n), v1) \<longrightarrow>
      verify_token_async e v token = (Inr (failure ''exception'' ''VALIDATION_EXCEPTION'' []), v1))"
  using verify_token_total[of e v token] verify_token_async_total[of e v token]
    unexpected_remote[of v e token] unexpected_local[of e v token]
  by (simp add: verify_token_async_def)

lemma sample_store_raises:
  "verify_token_local_try
     (sample_env (\<lambda>u. ok_response JNull) sample_payload (Inl (PyException ''ConnectionError'')) 1000)
     sample_local ''tok'' =
   (Inl (PyException ''ConnectionError''), sample_local\<lparr>store_queries := [''tok'']\<rparr>)"
  by (simp add: sample_defs verify_defs dict_get_def dict_get_default_def Let_def)

lemma sample_bad_jwks:
  "verify_token_try
     (sample_env (sample_http (ok_response sample_config_doc) (ok_response (JArr []))
        (ok_response (sample_revocations []))) sample_payload (Inr False) 1000)
     sample_remote ''tok'' =
   (Inl (PyException ''AttributeError''),
    sample_remote\<lparr>jwks_cache := JArr [], jwks_cache_time := Some 1000,
      config_cache := sample_config_doc, config_cache_time := Some 1000, client := True,
      requests := [''http://issuer/api/v1/jwt/jwt-config'',
                   ''http://issuer/api/v1/jwt/.well-known/jwks.json'']\<rparr>)"
  by (simp add: sample_defs fetch_defs verify_token_try_def trust_material_def)

theorem verification_never_raises_witness:
  "use_local sample_local \<and>
   fst (verify_token_async
     (sample_env (\<lambda>u. ok_response JNull) sample_payload (Inl (PyException ''ConnectionError'')) 1000)
     sample_local ''tok'') = Inr (failure ''exception'' ''VALIDATION_EXCEPTION'' []) \<and>
   \<not> use_local sample_remote \<and>
   fst (verify_token
     (sample_env (sample_http (ok_response sample_config_doc) (ok_response (JArr []))
        (ok_response (sample_revocations []))) sample_payload (Inr False) 1000)
     sample_remote ''tok'') = Inr (failure ''exception'' ''VALIDATION_EXCEPTION'' [])"
proof -
  let ?l = "sample_env (\<lambda>u. ok_response JNull) sample_payload (Inl (PyException ''ConnectionError'')) 1000"
  let ?r = "sample_env (sample_http (ok_response sample_config_doc) (ok_response (JArr []))
        (ok_response (sample_revocations []))) sample_payload (Inr False) 1000"
  have u: "use_local sample_local"
    by (simp add: sample_local_def init_default_def init_def sample_settings_def)
  have n: "\<not> use_local sample_remote"
    by (simp add: sample_remote_def init_def)
  have a: "fst (verify_token_async ?l sample_local ''tok'') =
      Inr (failure ''exception'' ''VALIDATION_EXCEPTION'' [])"
    using u sample_store_raises verification_never_raises[of ?l sample_local "''tok''"]
    by (metis fst_conv)
  have b: "fst (verify_token ?r sample_remote ''tok'') =
      Inr (failure ''exception'' ''VALIDATION_EXCEPTION'' [])"
    using n sample_bad_jwks verification_never_raises[of ?r sample_remote "''tok''"]
    by (metis fst_conv)
  from u a n b show ?thesis by (intro conjI)
qed

subsection \<open>Payload validation and the stages in Remote mode\<close>

lemma validate_missing:
  "first_missing [''sub'', ''username'', ''roles''] payload = Some f \<Longrightarrow>
   validate_payload_fields payload =
     Some (JWTValidationError ''MISSING_REQUIRED_FIELD'' [(''missing_field'', JStr f)])"
  by (simp add: validate_payload_fields_def)

lemma validate_not_list:
  "first_missing [''sub'', ''username'', ''roles''] payload = None \<Longrightarrow>
   \<not> is_list (dict_get payload ''roles'') \<Longrightarrow>
   validate_payload_fields payload =
     Some (JWTValidationError ''INVALID_FIELD_TYPE''
             [(''field'', JStr ''roles''), (''expected_type'', JStr ''list'')])"
  by (simp add: validate_payload_fields_def)

lemma validate_inactive:
  "first_missing [''sub'', ''username'', ''roles''] payload = None \<Longrightarrow>
   is_list (dict_get payload ''roles'') \<Longrightarrow>
   \<not> truthy (dict_get_default payload ''is_active'' (JBool True)) \<Longrightarrow>
   validate_payload_fields payload =
     Some (JWTValidationError ''USER_INACTIVE'' [(''user_id'', dict_get payload ''sub'')])"
  by (simp add: validate_payload_fields_def)


lemma wrong_type_code:
  "\<not> success (wrong_type_result t) \<and>
   error_code (wrong_type_result t) = Some (JStr ''INVALID_TOKEN_TYPE'')"
  by (simp add: wrong_type_result_def failure_def error_code_def)

lemma remote_decode_fails:
  "\<not> use_local v \<Longrightarrow> trust_material e v = (Inr (algorithm, issuer, audience, Some key), v1) \<Longrightarrow>
   key \<noteq> [] \<Longrightarrow> jwt_decode e token key [algorithm] issuer audience = Inl x \<Longrightarrow>
   verify_token e v token = (Inr (handle_exception x), v1)"
  by (simp add: verify_token_with_key checks_remote_decode_fails)

lemma remote_invalid_payload:
  "\<not> use_local v \<Longrightarrow> trust_material e v = (Inr (algorithm, issuer, audience, Some key), v1) \<Longrightarrow>
   key \<noteq> [] \<Longrightarrow> jwt_decode e token key [algorithm] issuer audience = Inr payload \<Longrightarrow>
   validate_payload_fields payload = Some x \<Longrightarrow>
   verify_token e v token = (Inr (handle_exception x), v1)"
  by (simp add: verify_token_with_key checks_remote_invalid_payload)

lemma remote_wrong_type:
  "\<not> use_local v \<Longrightarrow> trust_material e v = (Inr (algorithm, issuer, audience, Some key), v1) \<Longrightarrow>
   key \<noteq> [] \<Longrightarrow> jwt_decode e token key [algorithm] issuer audience = Inr payload \<Longrightarrow>
   validate_payload_fields payload = None \<Longrightarrow>
   truthy (dict_get payload ''type'') \<Longrightarrow> dict_get payload ''type'' \<noteq> JStr ''access'' \<Longrightarrow>
   verify_token e v token = (Inr (wrong_type_result (dict_get payload ''type'')), v1)"
  by (simp add: verify_token_with_key checks_remote_wrong_type)

lemma remote_falsy_type:
  "\<not> use_local v \<Longrightarrow> trust_material e v = (Inr (algorithm, issuer, audience, Some key), v1) \<Longrightarrow>
   key \<noteq> [] \<Longrightarrow> jwt_decode e token key [algorithm] issuer audience = Inr payload \<Longrightarrow>
   validate_payload_fields payload = None \<Longrightarrow> \<not> truthy (dict_get payload ''type'') \<Longrightarrow>
   verify_token e v token =
     (if fst (is_token_blacklisted e v1 token) then Inr blacklisted_result
      else Inr (success_result payload), snd (is_token_blacklisted e v1 token))"
  by (simp add: verify_token_with_key checks_remote_revocation)

lemma local_falsy_type:
  "local_decode e token = Inr payload \<Longrightarrow> validate_payload_fields payload = None \<Longrightarrow>
   \<not> truthy (dict_get payload ''type'') \<Longrightarrow>
   verify_token_local_async e v token =
     (case is_blacklisted e token of
        Inl x \<Rightarrow> Inr (handle_exception x)
      | Inr revoked \<Rightarrow> if revoked then Inr blacklisted_result else Inr (success_result payload),
      v\<lparr>store_queries := store_queries v @ [token]\<rparr>)"
  by (simp add: local_revocation)

text \<open>
  Claim C5, as amended. The stages run in the order signature, shape, semantics,
  revocation, and a failing stage ends the call: in Remote mode, once the key is selected
  in state \<open>v1\<close>, a token whose decoding fails, whose payload fails
  \<^verbatim>\<open>_validate_payload_fields\<close> (a missing field first, then a non-list \<^verbatim>\<open>roles\<close>,
  then a false \<^verbatim>\<open>is_active\<close>) or whose \<^verbatim>\<open>type\<close> claim is truthy and not
  \<^verbatim>\<open>access\<close> is rejected with that stage's code and the final state is \<open>v1\<close> itself, so
  the blacklist is neither fetched nor read, whatever it holds; in Local mode the same holds
  with the state unchanged, so the revocation store is not queried. A \<^verbatim>\<open>type\<close> claim
  that is absent or present but falsy (the empty string, for one) passes the type check:
  the token goes on to the revocation check, which alone decides between
  \<^verbatim>\<open>TOKEN_BLACKLISTED\<close> and acceptance.
\<close>

theorem stages_short_circuit:
  "(\<not> use_local v \<and> trust_material e v = (Inr (algorithm, issuer, audience, Some key), v1) \<and>
    key \<noteq> [] \<longrightarrow>
      same_revocation_state v v1 \<and>
      (\<forall>x. jwt_decode e token key [algorithm] issuer audience = Inl x \<longrightarrow>
         verify_token e v token = (Inr (handle_exception x), v1)) \<and>
      (\<forall>payload x. jwt_decode e token key [algorithm] issuer audience = Inr payload \<and>
         validate_payload_fields payload = Some x \<longrightarrow>
         verify_token e v token = (Inr (handle_exception x), v1)) \<and>
      (\<forall>payload. jwt_decode e token key [algorithm] issuer audience = Inr payload \<and>
         validate_payload_fields payload = None \<and>
         truthy (dict_get payload ''type'') \<and> dict_get payload ''type'' \<noteq> JStr ''access'' \<longrightarrow>
         verify_token e v token = (Inr (wrong_type_result (dict_get payload ''type'')), v1)) \<and>
      (\<forall>payload. jwt_decode e token key [algorithm] issuer audience = Inr payload \<and>
         validate_payload_fields payload = None \<and> \<not> truthy (dict_get payload ''type'') \<longrightarrow>
         verify_token e v token =
           (if fst (is_token_blacklisted e v1 token) then Inr blacklisted_result
            else Inr (success_result payload), snd (is_token_blacklisted e v1 token)))) \<and>
   (\<forall>x. local_decode e token = Inl x \<longrightarrow>
      verify_token_local_async e v token = (Inr (handle_exception x), v)) \<and>
   (\<forall>payload x. local_decode e token = Inr payload \<and> validate_payload_fields payload = Some x \<longrightarrow>
      verify_token_local_async e v token = (Inr (handle_exception x), v)) \<and>
   (\<forall>payload. local_decode e token = Inr payload \<and> validate_payload_fields payload = None \<and>
      truthy (dict_get payload ''type'') \<and> dict_get payload ''type'' \<noteq> JStr ''access'' \<longrightarrow>
      verify_token_local_async e v token = (Inr (wrong_type_result (dict_get payload ''type'')), v)) \<and>
   (\<forall>payload. local_decode e token = Inr payload \<and> validate_payload_fields payload = None \<and>
      \<not> truthy (dict_get payload ''type'') \<longrightarrow>
      verify_token_local_async e v token =
        (case is_blacklisted e token of
           Inl x \<Rightarrow> Inr (handle_exception x)
         | Inr revoked \<Rightarrow> if revoked then Inr blacklisted_result else Inr (success_result payload),
         v\<lparr>store_queries := store_queries v @ [token]\<rparr>)) \<and>
   (\<forall>payload f. first_missing [''sub'', ''username'', ''roles''] payload = Some f \<longrightarrow>
      validate_payload_fields payload =
        Some (JWTValidationError ''MISSING_REQUIRED_FIELD'' [(''missing_field'', JStr f)])) \<and>
   (\<forall>payload. first_missing [''sub'', ''username'', ''roles''] payload = None \<and>
      \<not> is_list (dict_get payload ''roles'') \<longrightarrow>
      validate_payload_fields payload =
        Some (JWTValidationError ''INVALID_FIELD_TYPE''
                [(''field'', JStr ''roles''), (''expected_type'', JStr ''list'')])) \<and>
   (\<forall>payload. first_missing [''sub'', ''username'', ''roles''] payload = None \<and>
      is_list (dict_get payload ''roles'') \<and>
      \<not> truthy (dict_get_default payload ''is_active'' (JBool True)) \<longrightarrow>
      validate_payload_fields payload =
        Some (JWTValidationError ''USER_INACTIVE'' [(''user_id'', dict_get payload ''sub'')])) \<and>
   handle_exception JWTError = failure ''jwt_error'' ''JWT_DECODE_ERROR'' [] \<and>
   (\<forall>t. error_code (wrong_type_result t) = Some (JStr ''INVALID_TOKEN_TYPE''))"
proof -
  have remote: "\<not> use_local v \<and> trust_material e v = (Inr (algorithm, issuer, audience, Some key), v1) \<and>
    key \<noteq> [] \<longrightarrow>
      same_revocation_state v v1 \<and>
      (\<forall>x. jwt_decode e token key [algorithm] issuer audience = Inl x \<longrightarrow>
         verify_token e v token = (Inr (handle_exception x), v1)) \<and>
      (\<forall>payload x. jwt_decode e token key [algorithm] issuer audience = Inr payload \<and>
         validate_payload_fields payload = Some x \<longrightarrow>
         verify_token e v token = (Inr (handle_exception x), v1)) \<and>
      (\<forall>payload. jwt_decode e token key [algorithm] issuer audience = Inr payload \<and>
         validate_payload_fields payload = None \<and>
         truthy (dict_get payload ''type'') \<and> dict_get payload ''type'' \<noteq> JStr ''access'' \<longrightarrow>
         verify_token e v token = (Inr (wrong_type_result (dict_get payload ''type'')), v1)) \<and>
      (\<forall>payload. jwt_decode e token key [algorithm] issuer audience = Inr payload \<and>
         validate_payload_fields payload = None \<and> \<not> truthy (dict_get payload ''type'') \<longrightarrow>
         verify_token e v token =
           (if fst (is_token_blacklisted e v1 token) then Inr blacklisted_result
            else Inr (success_result payload), snd (is_token_blacklisted e v1 token)))"
  proof (intro impI conjI allI; elim conjE)
    assume "trust_material e v = (Inr (algorithm, issuer, audience, Some key), v1)"
    then show "same_revocation_state v v1" by (rule trust_material_same)
  qed (rule remote_decode_fails remote_invalid_payload remote_wrong_type remote_falsy_type;
       assumption)+
  have l1: "\<forall>x. local_decode e token = Inl x \<longrightarrow>
      verify_token_local_async e v token = (Inr (handle_exception x), v)"
    by (intro allI impI) (rule local_decode_fails)
  have l2: "\<forall>payload x. local_decode e token = Inr payload \<and> validate_payload_fields payload = Some x \<longrightarrow>
      verify_token_local_async e v token = (Inr (handle_exception x), v)"
    by (intro allI impI; elim conjE) (rule local_invalid_payload; assumption)
  have l3: "\<forall>payload. local_decode e token = Inr payload \<and> validate_payload_fields payload = None \<and>
      truthy (dict_get payload ''type'') \<and> dict_get payload ''type'' \<noteq> JStr ''access'' \<longrightarrow>
      verify_token_local_async e v token = (Inr (wrong_type_result (dict_get payload ''type'')), v)"
    by (intro allI impI; elim conjE) (rule local_wrong_type; assumption)
  have l4: "\<forall>payload. local_decode e token = Inr payload \<and> validate_payload_fields payload = None \<and>
      \<not> truthy (dict_get payload ''type'') \<longrightarrow>
      verify_token_local_async e v token =
        (case is_blacklisted e token of
           Inl x \<Rightarrow> Inr (handle_exception x)
         | Inr revoked \<Rightarrow> if revoked then Inr blacklisted_result else Inr (success_result payload),
         v\<lparr>store_queries := store_queries v @ [token]\<rparr>)"
    by (intro allI impI; elim conjE) (rule local_falsy_type; assumption)
  have p1: "\<forall>payload f. first_missing [''sub'', ''username'', ''roles''] payload = Some f \<longrightarrow>
      validate_payload_fields payload =
        Some (JWTValidationError ''MISSING_REQUIRED_FIELD'' [(''missing_field'', JStr f)])"
    by (intro allI impI) (rule validate_missing)
  have p2: "\<forall>payload. first_missing [''sub'', ''username'', ''roles''] payload = None \<and>
      \<not> is_list (dict_get payload ''roles'') \<longrightarrow>
      validate_payload_fields payload =
        Some (JWTValidationError ''INVALID_FIELD_TYPE''
                [(''field'', JStr ''roles''), (''expected_type'', JStr ''list'')])"
    by (intro allI impI; elim conjE) (rule validate_not_list; assumption)
  have p3: "\<forall>payload. first_missing [''sub'', ''username'', ''roles''] payload = None \<and>
      is_list (dict_get payload ''roles'') \<and>
      \<not> truthy (dict_get_default payload ''is_active'' (JBool True)) \<longrightarrow>
      validate_payload_fields payload =
        Some (JWTValidationError ''USER_INACTIVE'' [(''user_id'', dict_get payload ''sub'')])"
    by (intro allI impI; elim conjE) (rule validate_inactive; assumption)
  have c1: "handle_exception JWTError = failure ''jwt_error'' ''JWT_DECODE_ERROR'' []"
    by simp
  have c2: "\<forall>t. error_code (wrong_type_result t) = Some (JStr ''INVALID_TOKEN_TYPE'')"
    by (simp add: wrong_type_code)
  from remote l1 l2 l3 l4 p1 p2 p3 c1 c2 show ?thesis by (intro conjI)
qed

lemma sample_not_local: "\<not> use_local sample_remote"
  by (simp add: sample_remote_def init_def)


lemma sample_claims:
  "k \<noteq> ''iss'' \<Longrightarrow> k \<noteq> ''aud'' \<Longrightarrow> k \<noteq> ''exp'' \<Longrightarrow> now \<le> 5000 \<Longrightarrow>
   sample_claims_ok ((k, x) # sample_payload) (JStr ''svc'') (JStr ''microservices'') now"
  "now \<le> 5000 \<Longrightarrow> sample_claims_ok sample_payload (JStr ''svc'') (JStr ''microservices'') now"
  by (simp_all add: sample_claims_ok_def sample_payload_def dict_get_def dict_get_default_def)

lemma sample_decode:
  "sample_claims_ok p (JStr ''svc'') (JStr ''microservices'') now \<Longrightarrow>
   jwt_decode (sample_env h p st now) ''tok'' ''s3cr3t'' [JStr ''HS256''] (JStr ''svc'')
     (JStr ''microservices'') = Inr p"
  "jwt_decode (sample_env h p st now) ''bad'' ''s3cr3t'' [JStr ''HS256''] (JStr ''svc'')
     (JStr ''microservices'') = Inl JWTError"
  "sample_claims_ok p (JStr ''svc'') (JStr ''microservices'') now \<Longrightarrow>
   local_decode (sample_env h p st now) ''tok'' = Inr p"
  "local_decode (sample_env h p st now) ''bad'' = Inl JWTError"
  by (simp_all add: sample_env_def local_decode_def sample_settings_def)

lemma sample_revoked:
  "is_token_blacklisted
     (sample_env (sample_http c j (ok_response (sample_revocations [''sha256:tok'']))) p st now)
     (sample_remote_ready now) ''tok'' =
   (True, (sample_remote_ready now)\<lparr>blacklist_cache := JArr [JStr ''sha256:tok''],
      blacklist_cache_time := Some now,
      requests := [''http://issuer/api/v1/jwt/jwt-config'',
                   ''http://issuer/api/v1/jwt/.well-known/jwks.json'',
                   ''http://issuer/api/v1/jwt/blacklist'']\<rparr>)"
  by (simp add: sample_remote_ready_def sample_defs fetch_defs)

theorem stages_short_circuit_witness:
  "\<not> use_local sample_remote \<and>
   trust_material
     (sample_env (sample_http (ok_response sample_config_doc) (ok_response sample_jwks_doc)
        (ok_response (sample_revocations [''sha256:tok''])))
        ((''type'', JStr ''refresh'') # sample_payload) (Inr True) 1000) sample_remote =
     (Inr (JStr ''HS256'', JStr ''svc'', JStr ''microservices'', Some ''s3cr3t''),
      sample_remote_ready 1000) \<and>
   jwt_decode
     (sample_env (sample_http (ok_response sample_config_doc) (ok_response sample_jwks_doc)
        (ok_response (sample_revocations [''sha256:tok''])))
        ((''type'', JStr ''refresh'') # sample_payload) (Inr True) 1000)
     ''tok'' ''s3cr3t'' [JStr ''HS256''] (JStr ''svc'') (JStr ''microservices'') =
     Inr ((''type'', JStr ''refresh'') # sample_payload) \<and>
   fst (is_token_blacklisted
     (sample_env (sample_http (ok_response sample_config_doc) (ok_response sample_jwks_doc)
        (ok_response (sample_revocations [''sha256:tok''])))
        ((''type'', JStr ''refresh'') # sample_payload) (Inr True) 1000)
     (sample_remote_ready 1000) ''tok'') \<and>
   verify_token
     (sample_env (sample_http (ok_response sample_config_doc) (ok_response sample_jwks_doc)
        (ok_response (sample_revocations [''sha256:tok''])))
        ((''type'', JStr ''refresh'') # sample_payload) (Inr True) 1000) sample_remote ''tok'' =
     (Inr (wrong_type_result (JStr ''refresh'')), sample_remote_ready 1000) \<and>
   verify_token
     (sample_env (sample_http (ok_response sample_config_doc) (ok_response sample_jwks_doc)
        (ok_response (sample_revocations [''sha256:tok''])))
        ((''type'', JStr ''refresh'') # sample_payload) (Inr True) 1000) sample_remote ''bad'' =
     (Inr (failure ''jwt_error'' ''JWT_DECODE_ERROR'' []), sample_remote_ready 1000) \<and>
   verify_token_local_async
     (sample_env (sample_http (ok_response sample_config_doc) (ok_response sample_jwks_doc)
        (ok_response (sample_revocations [''sha256:tok''])))
        ((''type'', JStr ''refresh'') # sample_payload) (Inr True) 1000) sample_local ''tok'' =
     (Inr (wrong_type_result (JStr ''refresh'')), sample_local) \<and>
   verify_token_local_async
     (sample_env (sample_http (ok_response sample_config_doc) (ok_response sample_jwks_doc)
        (ok_response (sample_revocations [''sha256:tok''])))
        ((''type'', JStr ''refresh'') # sample_payload) (Inr True) 1000) sample_local ''bad'' =
     (Inr (failure ''jwt_error'' ''JWT_DECODE_ERROR'' []), sample_local) \<and>
   fst (verify_token
     (sample_env (sample_http (ok_response sample_config_doc) (ok_response sample_jwks_doc)
        (ok_response (sample_revocations [''sha256:tok''])))
        ((''type'', JStr []) # sample_payload) (Inr True) 1000) sample_remote ''tok'') =
     Inr blacklisted_result \<and>
   verify_token_local_async
     (sample_env (sample_http (ok_response sample_config_doc) (ok_response sample_jwks_doc)
        (ok_response (sample_revocations [''sha256:tok''])))
        ((''type'', JStr []) # sample_payload) (Inr True) 1000) sample_local ''tok'' =
     (Inr blacklisted_result, sample_local\<lparr>store_queries := [''tok'']\<rparr>)"
proof -
  let ?p = "(''type'', JStr ''refresh'') # sample_payload"
  let ?q = "(''type'', JStr []) # sample_payload"
  let ?h = "sample_http (ok_response sample_config_doc) (ok_response sample_jwks_doc)
        (ok_response (sample_revocations [''sha256:tok'']))"
  let ?e = "sample_env ?h ?p (Inr True) 1000"
  let ?f = "sample_env ?h ?q (Inr True) 1000"
  have tm: "trust_material ?e sample_remote =
     (Inr (JStr ''HS256'', JStr ''svc'', JStr ''microservices'', Some ''s3cr3t''),
      sample_remote_ready 1000)"
    unfolding sample_remote_ready_def by (rule sample_trust_material)
  have tmf: "trust_material ?f sample_remote =
     (Inr (JStr ''HS256'', JStr ''svc'', JStr ''microservices'', Some ''s3cr3t''),
      sample_remote_ready 1000)"
    unfolding sample_remote_ready_def by (rule sample_trust_material)
  have key: "''s3cr3t'' \<noteq> []" by simp
  have dp: "jwt_decode ?e ''tok'' ''s3cr3t'' [JStr ''HS256''] (JStr ''svc'') (JStr ''microservices'') = Inr ?p"
    by (rule sample_decode(1)) (simp add: sample_claims)
  have dq: "jwt_decode ?f ''tok'' ''s3cr3t'' [JStr ''HS256''] (JStr ''svc'') (JStr ''microservices'') = Inr ?q"
    by (rule sample_decode(1)) (simp add: sample_claims)
  have db: "jwt_decode ?e ''bad'' ''s3cr3t'' [JStr ''HS256''] (JStr ''svc'') (JStr ''microservices'') = Inl JWTError"
    by (rule sample_decode(2))
  have lp: "local_decode ?e ''tok'' = Inr ?p"
    by (rule sample_decode(3)) (simp add: sample_claims)
  have lq: "local_decode ?f ''tok'' = Inr ?q"
    by (rule sample_decode(3)) (simp add: sample_claims)
  have lb: "local_decode ?e ''bad'' = Inl JWTError"
    by (rule sample_decode(4))
  have val: "validate_payload_fields ?p = None" "validate_payload_fields ?q = None"
    by (simp_all add: validate_payload_fields_def sample_payload_def dict_get_def dict_get_default_def)
  have ty: "truthy (dict_get ?p ''type'')" "dict_get ?p ''type'' \<noteq> JStr ''access''"
    "dict_get ?p ''type'' = JStr ''refresh''" "\<not> truthy (dict_get ?q ''type'')"
    by (simp_all add: dict_get_def dict_get_default_def)
  have rev: "fst (is_token_blacklisted ?e (sample_remote_ready 1000) ''tok'')"
    by (simp add: sample_revoked)
  have revf: "fst (is_token_blacklisted ?f (sample_remote_ready 1000) ''tok'')"
    by (simp add: sample_revoked)
  have st: "is_blacklisted ?f ''tok'' = Inr True" by (simp add: sample_env_def)
  have sq: "store_queries sample_local = []"
    by (simp add: sample_local_def init_default_def init_def Let_def)
  note T = stages_short_circuit [where v = sample_remote and e = ?e and token = "''tok''"
      and algorithm = "JStr ''HS256''" and issuer = "JStr ''svc''"
      and audience = "JStr ''microservices''" and key = "''s3cr3t''"
      and ?v1.0 = "sample_remote_ready 1000"]
  note B = stages_short_circuit [where v = sample_remote and e = ?e and token = "''bad''"
      and algorithm = "JStr ''HS256''" and issuer = "JStr ''svc''"
      and audience = "JStr ''microservices''" and key = "''s3cr3t''"
      and ?v1.0 = "sample_remote_ready 1000"]
  note F = stages_short_circuit [where v = sample_remote and e = ?f and token = "''tok''"
      and algorithm = "JStr ''HS256''" and issuer = "JStr ''svc''"
      and audience = "JStr ''microservices''" and key = "''s3cr3t''"
      and ?v1.0 = "sample_remote_ready 1000"]
  note L = stages_short_circuit [where v = sample_local and e = ?e and token = "''tok''"]
  note M = stages_short_circuit [where v = sample_local and e = ?e and token = "''bad''"]
  note N = stages_short_circuit [where v = sample_local and e = ?f and token = "''tok''"]
  have r1: "verify_token ?e sample_remote ''tok'' =
      (Inr (wrong_type_result (JStr ''refresh'')), sample_remote_ready 1000)"
    using T sample_not_local tm key dp val(1) ty(1,2,3) by metis
  have r2: "verify_token ?e sample_remote ''bad'' =
      (Inr (failure ''jwt_error'' ''JWT_DECODE_ERROR'' []), sample_remote_ready 1000)"
    using B sample_not_local tm key db by metis
  have r3: "verify_token_local_async ?e sample_local ''tok'' =
      (Inr (wrong_type_result (JStr ''refresh'')), sample_local)"
    using L lp val(1) ty(1,2,3) by metis
  have r4: "verify_token_local_async ?e sample_local ''bad'' =
      (Inr (failure ''jwt_error'' ''JWT_DECODE_ERROR'' []), sample_local)"
    using M lb by metis
  have "verify_token ?f sample_remote ''tok'' =
      (if fst (is_token_blacklisted ?f (sample_remote_ready 1000) ''tok'')
       then Inr blacklisted_result else Inr (success_result ?q),
       snd (is_token_blacklisted ?f (sample_remote_ready 1000) ''tok''))"
    using F sample_not_local tmf key dq val(2) ty(4) by blast
  then have r5: "fst (verify_token ?f sample_remote ''tok'') = Inr blacklisted_result"
    using revf by simp
  have "verify_token_local_async ?f sample_local ''tok'' =
      (case is_blacklisted ?f ''tok'' of
         Inl x \<Rightarrow> Inr (handle_exception x)
       | Inr revoked \<Rightarrow> if revoked then Inr blacklisted_result else Inr (success_result ?q),
       sample_local\<lparr>store_queries := store_queries sample_local @ [''tok'']\<rparr>)"
    using N lq val(2) ty(4) by blast
  then have r6: "verify_token_local_async ?f sample_local ''tok'' =
      (Inr blacklisted_result, sample_local\<lparr>store_queries := [''tok'']\<rparr>)"
    using st sq by simp
  from sample_not_local tm dp rev r1 r2 r3 r4 r5 r6 show ?thesis by (intro conjI)
qed

text \<open>
  The claim as first stated fails in two ways. A present but empty \<^verbatim>\<open>type\<close> claim is
  not \<^verbatim>\<open>access\<close>, yet the token passes the type check and is rejected as blacklisted.
  A token with \<^verbatim>\<open>type\<close> \<^verbatim>\<open>refresh\<close> and a false \<^verbatim>\<open>is_active\<close> has a valid
  signature and shape, yet it is rejected as \<^verbatim>\<open>USER_INACTIVE\<close>, not for its type.
\<close>

theorem empty_type_claim_counterexample:
  "map_of ((''type'', JStr []) # sample_payload) ''type'' = Some (JStr []) \<and>
   JStr [] \<noteq> JStr ''access'' \<and>
   fst (verify_token
     (sample_env (sample_http (ok_response sample_config_doc) (ok_response sample_jwks_doc)
        (ok_response (sample_revocations [''sha256:tok''])))
        ((''type'', JStr []) # sample_payload) (Inr True) 1000) sample_remote ''tok'') =
     Inr blacklisted_result \<and>
   error_code blacklisted_result = Some (JStr ''TOKEN_BLACKLISTED'') \<and>
   fst (verify_token
     (sample_env (sample_http (ok_response sample_config_doc) (ok_response sample_jwks_doc)
        (ok_response (sample_revocations [])))
        ((''type'', JStr ''refresh'') # (''is_active'', JBool False) # sample_payload)
        (Inr False) 1000) sample_remote ''tok'') =
     Inr (failure ''validation_error'' ''USER_INACTIVE''
            [(''details'', JObj [(''user_id'', JStr ''u1'')])])"
proof -
  let ?p = "(''type'', JStr []) # sample_payload"
  let ?e = "sample_env (sample_http (ok_response sample_config_doc) (ok_response sample_jwks_doc)
        (ok_response (sample_revocations [''sha256:tok'']))) ?p (Inr True) 1000"
  let ?q = "(''type'', JStr ''refresh'') # (''is_active'', JBool False) # sample_payload"
  let ?f = "sample_env (sample_http (ok_response sample_config_doc) (ok_response sample_jwks_doc)
        (ok_response (sample_revocations []))) ?q (Inr False) 1000"
  have tm: "trust_material ?e sample_remote =
     (Inr (JStr ''HS256'', JStr ''svc'', JStr ''microservices'', Some ''s3cr3t''),
      sample_remote_ready 1000)"
    unfolding sample_remote_ready_def by (rule sample_trust_material)
  have tmf: "trust_material ?f sample_remote =
     (Inr (JStr ''HS256'', JStr ''svc'', JStr ''microservices'', Some ''s3cr3t''),
      sample_remote_ready 1000)"
    unfolding sample_remote_ready_def by (rule sample_trust_material)
  have dp: "jwt_decode ?e ''tok'' ''s3cr3t'' [JStr ''HS256''] (JStr ''svc'') (JStr ''microservices'') = Inr ?p"
    by (rule sample_decode(1)) (simp add: sample_claims)
  have dq: "jwt_decode ?f ''tok'' ''s3cr3t'' [JStr ''HS256''] (JStr ''svc'') (JStr ''microservices'') = Inr ?q"
    by (rule sample_decode(1))
       (simp add: sample_claims_ok_def sample_payload_def dict_get_def dict_get_default_def)
  have val: "validate_payload_fields ?p = None"
    by (simp add: validate_payload_fields_def sample_payload_def dict_get_def dict_get_default_def)
  have valq: "validate_payload_fields ?q =
      Some (JWTValidationError ''USER_INACTIVE'' [(''user_id'', JStr ''u1'')])"
    by (simp add: validate_payload_fields_def sample_payload_def dict_get_def dict_get_default_def)
  have ty: "\<not> (truthy (dict_get ?p ''type'') \<and> dict_get ?p ''type'' \<noteq> JStr ''access'')"
    by (simp add: dict_get_def dict_get_default_def)
  have "checks_remote ?e (sample_remote_ready 1000) ''tok'' ''s3cr3t'' (JStr ''HS256'')
          (JStr ''svc'') (JStr ''microservices'') =
        (Inr blacklisted_result, snd (is_token_blacklisted ?e (sample_remote_ready 1000) ''tok''))"
    using checks_remote_revocation[OF dp val ty, of "sample_remote_ready 1000"]
    by (simp add: sample_revoked)
  then have a: "fst (verify_token ?e sample_remote ''tok'') = Inr blacklisted_result"
    using verify_token_with_key[OF sample_not_local tm, of "''tok''"] by simp
  have b: "fst (verify_token ?f sample_remote ''tok'') =
      Inr (failure ''validation_error'' ''USER_INACTIVE''
            [(''details'', JObj [(''user_id'', JStr ''u1'')])])"
    using remote_invalid_payload[OF sample_not_local tmf _ dq valq] by simp
  from a b show ?thesis
    by (simp add: blacklisted_result_def failure_def error_code_def)
qed

subsection \<open>A failing key-set endpoint\<close>

lemma fetch_jwt_config_keeps_jwks:
  "fetch_jwt_config e v = (r, v1) \<Longrightarrow> jwks_cache_time v1 = jwks_cache_time v"
  by (auto simp: fetch_jwt_config_def Let_def get_client_def
      split: sum.splits exn.splits if_splits option.splits)

lemma get_jwt_config_keeps_jwks:
  "get_jwt_config e v = (r, v1) \<Longrightarrow> jwks_cache_time v1 = jwks_cache_time v"
proof (cases "fetch_jwt_config e v")
  case (Pair a b)
  assume g: "get_jwt_config e v = (r, v1)"
  have s: "jwks_cache_time b = jwks_cache_time v" using Pair by (rule fetch_jwt_config_keeps_jwks)
  show ?thesis
    using g Pair s by (auto simp: get_jwt_config_def split: if_splits sum.splits)
qed

lemma get_jwks_status_error:
  assumes "\<not> use_local v"
    and "\<not> is_cache_valid e v (jwks_cache_time v)"
    and "http_get e (user_service_url v @ auth_jwks_endpoint (cfg e)) = Inr r"
    and "status_code r \<noteq> 200"
  shows "get_jwks e v =
     (Inl (JWTValidationError ''JWKS_FETCH_ERROR''
        [(''status_code'', JNum (real_of_int (status_code r))),
         (''url'', JStr (user_service_url v @ auth_jwks_endpoint (cfg e)))]),
      (get_client v)\<lparr>requests := requests v @ [user_service_url v @ auth_jwks_endpoint (cfg e)]\<rparr>)"
  using assms by (simp add: get_jwks_def fetch_jwks_def Let_def get_client_def)

lemma jwks_error_after_config:
  assumes nl: "\<not> use_local v"
    and cf: "get_jwt_config e v = (Inr (JObj c), v1)"
    and st: "\<not> is_cache_valid e v (jwks_cache_time v)"
    and ht: "http_get e (user_service_url v @ auth_jwks_endpoint (cfg e)) = Inr r"
    and ne: "status_code r \<noteq> 200"
  shows "get_jwks e v1 =
     (Inl (JWTValidationError ''JWKS_FETCH_ERROR''
        [(''status_code'', JNum (real_of_int (status_code r))),
         (''url'', JStr (user_service_url v @ auth_jwks_endpoint (cfg e)))]),
      (get_client v1)\<lparr>requests := requests v1 @ [user_service_url v @ auth_jwks_endpoint (cfg e)]\<rparr>)"
proof -
  have s: "same_revocation_state v v1" using cf by (rule get_jwt_config_same)
  have k: "jwks_cache_time v1 = jwks_cache_time v" using cf by (rule get_jwt_config_keeps_jwks)
  have u: "user_service_url v1 = user_service_url v" "use_local v1 = use_local v"
    "cache_ttl v1 = cache_ttl v"
    using s by (simp_all add: same_revocation_state_def)
  have "\<not> is_cache_valid e v1 (jwks_cache_time v1)"
    using st k u by (simp add: is_cache_valid_def split: option.splits)
  then show ?thesis
    using get_jwks_status_error[of v1 e r] nl ht ne u by simp
qed

lemma verify_token_jwks_error:
  assumes nl: "\<not> use_local v"
    and cf: "get_jwt_config e v = (Inr (JObj c), v1)"
    and jw: "get_jwks e v1 = (Inl x, v2)"
  shows "verify_token e v token = (Inr (handle_exception x), v2)"
  using assms by (simp add: verify_token_def verify_token_try_def trust_material_def)

text \<open>
  Claim C2, as amended. In Remote mode, with the configuration available and no fresh key
  set cached, a key-set endpoint that answers with a status other than 200 makes
  \<^verbatim>\<open>get_jwks\<close> raise \<^verbatim>\<open>JWTValidationError\<close> with code \<^verbatim>\<open>JWKS_FETCH_ERROR\<close>
  recording the status and the URL; \<^verbatim>\<open>verify_token\<close> catches it and returns it as an
  ordinary rejection result (\<^verbatim>\<open>success = False\<close>, reason \<^verbatim>\<open>validation_error\<close>, that
  error code and those details).
\<close>

theorem jwks_fetch_error_is_a_rejection:
  assumes "\<not> use_local v"
    and "get_jwt_config e v = (Inr (JObj c), v1)"
    and "\<not> is_cache_valid e v (jwks_cache_time v)"
    and "http_get e (user_service_url v @ auth_jwks_endpoint (cfg e)) = Inr r"
    and "status_code r \<noteq> 200"
  shows "fst (get_jwks e v1) =
       Inl (JWTValidationError ''JWKS_FETCH_ERROR''
         [(''status_code'', JNum (real_of_int (status_code r))),
          (''url'', JStr (user_service_url v @ auth_jwks_endpoint (cfg e)))]) \<and>
     fst (verify_token e v token) =
       Inr (failure ''validation_error'' ''JWKS_FETCH_ERROR''
         [(''details'', JObj
            [(''status_code'', JNum (real_of_int (status_code r))),
             (''url'', JStr (user_service_url v @ auth_jwks_endpoint (cfg e)))])])"
proof -
  note j = jwks_error_after_config[OF assms]
  show ?thesis
    using j verify_token_jwks_error[OF assms(1,2) j, of token] by simp
qed

lemma sample_config_fetched:
  "get_jwt_config (sample_env (sample_http (ok_response sample_config_doc) j b) p st now)
     sample_remote =
   (Inr (JObj [(''algorithm'', JStr ''HS256''), (''issuer'', JStr ''svc''),
               (''audience'', JStr ''microservices'')]),
    sample_remote\<lparr>config_cache := sample_config_doc, config_cache_time := Some now,
      client := True, requests := [''http://issuer/api/v1/jwt/jwt-config'']\<rparr>)"
  by (simp add: sample_defs fetch_defs)

theorem jwks_fetch_error_is_a_rejection_witness:
  "\<not> use_local sample_remote \<and>
   \<not> is_cache_valid
       (sample_env (sample_http (ok_response sample_config_doc) (error_response 500)
          (ok_response (sample_revocations []))) sample_payload (Inr False) 1000)
       sample_remote (jwks_cache_time sample_remote) \<and>
   fst (verify_token
     (sample_env (sample_http (ok_response sample_config_doc) (error_response 500)
        (ok_response (sample_revocations []))) sample_payload (Inr False) 1000)
     sample_remote ''tok'') =
     Inr (failure ''validation_error'' ''JWKS_FETCH_ERROR''
       [(''details'', JObj
          [(''status_code'', JNum 500),
           (''url'', JStr ''http://issuer/api/v1/jwt/.well-known/jwks.json'')])])"
proof -
  let ?e = "sample_env (sample_http (ok_response sample_config_doc) (error_response 500)
        (ok_response (sample_revocations []))) sample_payload (Inr False) 1000"
  have st: "\<not> is_cache_valid ?e sample_remote (jwks_cache_time sample_remote)"
    by (simp add: sample_remote_def init_def is_cache_valid_def)
  have url: "user_service_url sample_remote @ auth_jwks_endpoint (cfg ?e) =
      ''http://issuer/api/v1/jwt/.well-known/jwks.json''"
    by (simp add: sample_defs)
  have ht: "http_get ?e (user_service_url sample_remote @ auth_jwks_endpoint (cfg ?e)) =
      Inr \<lparr>status_code = 500, body = None\<rparr>"
    unfolding url by (simp add: sample_env_def sample_http_def error_response_def)
  have ne: "status_code \<lparr>status_code = 500, body = None\<rparr> \<noteq> 200" by simp
  show ?thesis
    using jwks_fetch_error_is_a_rejection
      [OF sample_not_local sample_config_fetched st ht ne, of "''tok''"] st sample_not_local
    by (simp add: url)
qed

text \<open>
  The claim as first stated has \<^verbatim>\<open>verify_token\<close> surface the failure other than as a
  rejection result; on a key-set endpoint answering 500 it returns this rejection result.
\<close>

theorem jwks_failure_returned_counterexample:
  "verify_token
     (sample_env (sample_http (ok_response sample_config_doc) (error_response 500)
        (ok_response (sample_revocations []))) sample_payload (Inr False) 1000)
     sample_remote ''tok'' =
   (Inr \<lparr>success = False,
      data = [(''valid'', JBool False), (''reason'', JStr ''validation_error''),
              (''error_code'', JStr ''JWKS_FETCH_ERROR''),
              (''details'', JObj
                 [(''status_code'', JNum 500),
                  (''url'', JStr ''http://issuer/api/v1/jwt/.well-known/jwks.json'')])]\<rparr>,
    sample_remote\<lparr>config_cache := sample_config_doc, config_cache_time := Some 1000,
      client := True,
      requests := [''http://issuer/api/v1/jwt/jwt-config'',
                   ''http://issuer/api/v1/jwt/.well-known/jwks.json'']\<rparr>)"
  by (simp add: sample_defs fetch_defs verify_defs)

subsection \<open>Revocation-check failures\<close>

lemma fetch_blacklist_fails:
  assumes "case http_get e (user_service_url v @ auth_blacklist_endpoint (cfg e)) of
             Inl x \<Rightarrow> True | Inr r \<Rightarrow> status_code r \<noteq> 200"
  shows "fst (fetch_blacklist e v) = JArr []"
  using assms
  by (auto simp: fetch_blacklist_def Let_def get_client_def split: sum.splits)

lemma blacklist_fetch_fail_open:
  assumes "\<not> is_cache_valid e v (blacklist_cache_time v)"
    and "case http_get e (user_service_url v @ auth_blacklist_endpoint (cfg e)) of
             Inl x \<Rightarrow> True | Inr r \<Rightarrow> status_code r \<noteq> 200"
  shows "fst (is_token_blacklisted e v token) = False"
    and "blacklist_cache (snd (is_token_blacklisted e v token)) = JArr []"
  using assms fetch_blacklist_fails[OF assms(2)]
  by (auto simp: is_token_blacklisted_def get_blacklist_cache_def or_empty_list_def split: prod.splits sum.splits)

lemma remote_accepts_when_not_revoked:
  assumes "\<not> use_local v"
    and "trust_material e v = (Inr (algorithm, issuer, audience, Some key), v1)"
    and "key \<noteq> []"
    and "jwt_decode e token key [algorithm] issuer audience = Inr payload"
    and "validate_payload_fields payload = None"
    and "\<not> (truthy (dict_get payload ''type'') \<and> dict_get payload ''type'' \<noteq> JStr ''access'')"
    and "fst (is_token_blacklisted e v1 token) = False"
  shows "fst (verify_token e v token) = Inr (success_result payload)"
  using assms checks_remote_revocation[OF assms(4,5,6), of v1]
  by (simp add: verify_token_with_key)

lemma remote_fail_open:
  assumes "\<not> use_local v"
    and "trust_material e v = (Inr (algorithm, issuer, audience, Some key), v1)"
    and "key \<noteq> []"
    and "jwt_decode e token key [algorithm] issuer audience = Inr payload"
    and "validate_payload_fields payload = None"
    and "\<not> (truthy (dict_get payload ''type'') \<and> dict_get payload ''type'' \<noteq> JStr ''access'')"
    and "\<not> is_cache_valid e v (blacklist_cache_time v)"
    and "case http_get e (user_service_url v @ auth_blacklist_endpoint (cfg e)) of
             Inl x \<Rightarrow> True | Inr r \<Rightarrow> status_code r \<noteq> 200"
  shows "fst (verify_token e v token) = Inr (success_result payload)"
proof -
  have s: "same_revocation_state v v1" using assms(2) by (rule trust_material_same)
  have a: "\<not> is_cache_valid e v1 (blacklist_cache_time v1)"
    using assms(7) s
    by (simp add: is_cache_valid_def same_revocation_state_def split: option.splits)
  have b: "case http_get e (user_service_url v1 @ auth_blacklist_endpoint (cfg e)) of
             Inl x \<Rightarrow> True | Inr r \<Rightarrow> status_code r \<noteq> 200"
    using assms(8) s by (simp add: same_revocation_state_def)
  show ?thesis
    using remote_accepts_when_not_revoked[OF assms(1-6) blacklist_fetch_fail_open(1)[OF a b]] .
qed

lemma local_store_error:
  assumes "is_blacklisted e token = Inl x"
    and "local_decode e token = Inr payload"
    and "validate_payload_fields payload = None"
    and "\<not> (truthy (dict_get payload ''type'') \<and> dict_get payload ''type'' \<noteq> JStr ''access'')"
  shows "fst (verify_token_local_async e v token) = Inr (handle_exception x)"
  using local_revocation[OF assms(2,3,4), of v] assms(1) by simp

lemma handle_exception_fails: "\<not> success (handle_exception x)"
  by (cases x) (simp_all add: failure_def)

lemma local_success_needs_store:
  assumes "fst (verify_token_local_async e v token) = Inr r" and "success r"
  shows "is_blacklisted e token = Inr False"
proof (cases "local_decode e token")
  case (Inl x)
  then show ?thesis
    using assms local_decode_fails[OF Inl, of v] handle_exception_fails by auto
next
  case (Inr payload)
  show ?thesis
  proof (cases "validate_payload_fields payload")
    case (Some x)
    then show ?thesis
      using assms local_invalid_payload[OF Inr Some, of v] handle_exception_fails by auto
  next
    case None
    show ?thesis
    proof (cases "truthy (dict_get payload ''type'') \<and> dict_get payload ''type'' \<noteq> JStr ''access''")
      case True
      then show ?thesis
        using assms local_wrong_type[OF Inr None, of v] wrong_type_code by auto
    next
      case False
      then show ?thesis
        using assms local_revocation[OF Inr None False, of v] handle_exception_fails
        by (auto simp: blacklisted_result_def failure_def split: sum.splits if_splits)
    qed
  qed
qed

text \<open>
  Claim C3, as amended. The policy on a failing revocation check differs by mode. Remote:
  when the blacklist has to be fetched and the fetch fails (the client raises, or the status
  is not 200), the list degrades to the empty list, every token is reported not revoked, and
  a token that passed the earlier stages is accepted. Local: when the revocation store
  raises, the call never accepts the token, and the exception does not leave the call: the
  handlers of \<^verbatim>\<open>_verify_token_local_async\<close> turn it into a rejection result, with code
  \<^verbatim>\<open>VALIDATION_EXCEPTION\<close> for an exception of any other class.
\<close>

theorem revocation_failure_policy:
  "(\<not> is_cache_valid e v (blacklist_cache_time v) \<and>
    (case http_get e (user_service_url v @ auth_blacklist_endpoint (cfg e)) of
       Inl x \<Rightarrow> True | Inr r \<Rightarrow> status_code r \<noteq> 200) \<longrightarrow>
      fst (is_token_blacklisted e v token) = False \<and>
      blacklist_cache (snd (is_token_blacklisted e v token)) = JArr [] \<and>
      (\<forall>algorithm issuer audience key v1 payload.
         \<not> use_local v \<and>
         trust_material e v = (Inr (algorithm, issuer, audience, Some key), v1) \<and> key \<noteq> [] \<and>
         jwt_decode e token key [algorithm] issuer audience = Inr payload \<and>
         validate_payload_fields payload = None \<and>
         \<not> (truthy (dict_get payload ''type'') \<and> dict_get payload ''type'' \<noteq> JStr ''access'') \<longrightarrow>
         fst (verify_token e v token) = Inr (success_result payload))) \<and>
   (\<forall>x. is_blacklisted e token = Inl x \<longrightarrow>
      (\<forall>r. fst (verify_token_local_async e v token) = Inr r \<longrightarrow> \<not> success r) \<and>
      (\<forall>r. use_local v \<and> fst (verify_token_async e v token) = Inr r \<longrightarrow> \<not> success r) \<and>
      (\<forall>payload. local_decode e token = Inr payload \<and>
         validate_payload_fields payload = None \<and>
         \<not> (truthy (dict_get payload ''type'') \<and> dict_get payload ''type'' \<noteq> JStr ''access'') \<longrightarrow>
         fst (verify_token_local_async e v token) = Inr (handle_exception x)))"
proof -
  have remote: "\<not> is_cache_valid e v (blacklist_cache_time v) \<and>
    (case http_get e (user_service_url v @ auth_blacklist_endpoint (cfg e)) of
       Inl x \<Rightarrow> True | Inr r \<Rightarrow> status_code r \<noteq> 200) \<longrightarrow>
      fst (is_token_blacklisted e v token) = False \<and>
      blacklist_cache (snd (is_token_blacklisted e v token)) = JArr [] \<and>
      (\<forall>algorithm issuer audience key v1 payload.
         \<not> use_local v \<and>
         trust_material e v = (Inr (algorithm, issuer, audience, Some key), v1) \<and> key \<noteq> [] \<and>
         jwt_decode e token key [algorithm] issuer audience = Inr payload \<and>
         validate_payload_fields payload = None \<and>
         \<not> (truthy (dict_get payload ''type'') \<and> dict_get payload ''type'' \<noteq> JStr ''access'') \<longrightarrow>
         fst (verify_token e v token) = Inr (success_result payload))"
  proof (intro impI, elim conjE)
    assume a: "\<not> is_cache_valid e v (blacklist_cache_time v)"
      and b: "case http_get e (user_service_url v @ auth_blacklist_endpoint (cfg e)) of
       Inl x \<Rightarrow> True | Inr r \<Rightarrow> status_code r \<noteq> 200"
    have 1: "fst (is_token_blacklisted e v token) = False"
      using a b by (rule blacklist_fetch_fail_open(1))
    have 2: "blacklist_cache (snd (is_token_blacklisted e v token)) = JArr []"
      using a b by (rule blacklist_fetch_fail_open(2))
    have 3: "\<forall>algorithm issuer audience key v1 payload.
         \<not> use_local v \<and>
         trust_material e v = (Inr (algorithm, issuer, audience, Some key), v1) \<and> key \<noteq> [] \<and>
         jwt_decode e token key [algorithm] issuer audience = Inr payload \<and>
         validate_payload_fields payload = None \<and>
         \<not> (truthy (dict_get payload ''type'') \<and> dict_get payload ''type'' \<noteq> JStr ''access'') \<longrightarrow>
         fst (verify_token e v token) = Inr (success_result payload)"
      using remote_fail_open[of v e _ _ _ _ _ token, OF _ _ _ _ _ _ a b] by blast
    from 1 2 3 show "fst (is_token_blacklisted e v token) = False \<and>
      blacklist_cache (snd (is_token_blacklisted e v token)) = JArr [] \<and>
      (\<forall>algorithm issuer audience key v1 payload.
         \<not> use_local v \<and>
         trust_material e v = (Inr (algorithm, issuer, audience, Some key), v1) \<and> key \<noteq> [] \<and>
         jwt_decode e token key [algorithm] issuer audience = Inr payload \<and>
         validate_payload_fields payload = None \<and>
         \<not> (truthy (dict_get payload ''type'') \<and> dict_get payload ''type'' \<noteq> JStr ''access'') \<longrightarrow>
         fst (verify_token e v token) = Inr (success_result payload))"
      by (intro conjI)
  qed
  have local: "\<forall>x. is_blacklisted e token = Inl x \<longrightarrow>
      (\<forall>r. fst (verify_token_local_async e v token) = Inr r \<longrightarrow> \<not> success r) \<and>
      (\<forall>r. use_local v \<and> fst (verify_token_async e v token) = Inr r \<longrightarrow> \<not> success r) \<and>
      (\<forall>payload. local_decode e token = Inr payload \<and>
         validate_payload_fields payload = None \<and>
         \<not> (truthy (dict_get payload ''type'') \<and> dict_get payload ''type'' \<noteq> JStr ''access'') \<longrightarrow>
         fst (verify_token_local_async e v token) = Inr (handle_exception x))"
  proof (intro allI impI)
    fix x assume s: "is_blacklisted e token = Inl x"
    have 1: "\<forall>r. fst (verify_token_local_async e v token) = Inr r \<longrightarrow> \<not> success r"
      using local_success_needs_store[of e v token] s by auto
    have 2: "\<forall>r. use_local v \<and> fst (verify_token_async e v token) = Inr r \<longrightarrow> \<not> success r"
      using 1 by (simp add: verify_token_async_def)
    have 3: "\<forall>payload. local_decode e token = Inr payload \<and>
         validate_payload_fields payload = None \<and>
         \<not> (truthy (dict_get payload ''type'') \<and> dict_get payload ''type'' \<noteq> JStr ''access'') \<longrightarrow>
         fst (verify_token_local_async e v token) = Inr (handle_exception x)"
      using local_store_error[OF s] by blast
    from 1 2 3 show "(\<forall>r. fst (verify_token_local_async e v token) = Inr r \<longrightarrow> \<not> success r) \<and>
      (\<forall>r. use_local v \<and> fst (verify_token_async e v token) = Inr r \<longrightarrow> \<not> success r) \<and>
      (\<forall>payload. local_decode e token = Inr payload \<and>
         validate_payload_fields payload = None \<and>
         \<not> (truthy (dict_get payload ''type'') \<and> dict_get payload ''type'' \<noteq> JStr ''access'') \<longrightarrow>
         fst (verify_token_local_async e v token) = Inr (handle_exception x))"
      by (intro conjI)
  qed
  from remote local show ?thesis by (intro conjI)
qed


theorem revocation_failure_policy_witness:
  "\<not> is_cache_valid
       (sample_env (sample_http (ok_response sample_config_doc) (ok_response sample_jwks_doc)
          (error_response 503)) sample_payload (Inl (PyException ''ConnectionError'')) 1000)
       sample_remote (blacklist_cache_time sample_remote) \<and>
   http_get
       (sample_env (sample_http (ok_response sample_config_doc) (ok_response sample_jwks_doc)
          (error_response 503)) sample_payload (Inl (PyException ''ConnectionError'')) 1000)
       ''http://issuer/api/v1/jwt/blacklist'' = Inr \<lparr>status_code = 503, body = None\<rparr> \<and>
   fst (is_token_blacklisted
       (sample_env (sample_http (ok_response sample_config_doc) (ok_response sample_jwks_doc)
          (error_response 503)) sample_payload (Inl (PyException ''ConnectionError'')) 1000)
       sample_remote ''tok'') = False \<and>
   fst (verify_token
       (sample_env (sample_http (ok_response sample_config_doc) (ok_response sample_jwks_doc)
          (error_response 503)) sample_payload (Inl (PyException ''ConnectionError'')) 1000)
       sample_remote ''tok'') = Inr (success_result sample_payload) \<and>
   is_blacklisted
       (sample_env (sample_http (ok_response sample_config_doc) (ok_response sample_jwks_doc)
          (error_response 503)) sample_payload (Inl (PyException ''ConnectionError'')) 1000)
       ''tok'' = Inl (PyException ''ConnectionError'') \<and>
   fst (verify_token_local_async
       (sample_env (sample_http (ok_response sample_config_doc) (ok_response sample_jwks_doc)
          (error_response 503)) sample_payload (Inl (PyException ''ConnectionError'')) 1000)
       sample_local ''tok'') = Inr (failure ''exception'' ''VALIDATION_EXCEPTION'' [])"
proof -
  let ?e = "sample_env (sample_http (ok_response sample_config_doc) (ok_response sample_jwks_doc)
          (error_response 503)) sample_payload (Inl (PyException ''ConnectionError'')) 1000"
  have a: "\<not> is_cache_valid ?e sample_remote (blacklist_cache_time sample_remote)"
    by (simp add: sample_remote_def init_def is_cache_valid_def)
  have url: "user_service_url sample_remote @ auth_blacklist_endpoint (cfg ?e) =
      ''http://issuer/api/v1/jwt/blacklist''"
    by (simp add: sample_defs)
  have h: "http_get ?e ''http://issuer/api/v1/jwt/blacklist'' = Inr \<lparr>status_code = 503, body = None\<rparr>"
    by (simp add: sample_env_def sample_http_def error_response_def)
  have b: "case http_get ?e (user_service_url sample_remote @ auth_blacklist_endpoint (cfg ?e)) of
             Inl x \<Rightarrow> True | Inr r \<Rightarrow> status_code r \<noteq> 200"
    unfolding url h by simp
  have tm: "trust_material ?e sample_remote =
     (Inr (JStr ''HS256'', JStr ''svc'', JStr ''microservices'', Some ''s3cr3t''),
      sample_remote_ready 1000)"
    unfolding sample_remote_ready_def by (rule sample_trust_material)
  have key: "''s3cr3t'' \<noteq> []" by simp
  have val: "validate_payload_fields sample_payload = None"
    by (simp add: validate_payload_fields_def sample_payload_def dict_get_def dict_get_default_def)
  have ty: "\<not> (truthy (dict_get sample_payload ''type'') \<and>
              dict_get sample_payload ''type'' \<noteq> JStr ''access'')"
    by (simp add: sample_payload_def dict_get_def dict_get_default_def)
  have st: "is_blacklisted ?e ''tok'' = Inl (PyException ''ConnectionError'')"
    by (simp add: sample_env_def)
  have dec: "jwt_decode ?e ''tok'' ''s3cr3t'' [JStr ''HS256''] (JStr ''svc'')
      (JStr ''microservices'') = Inr sample_payload"
    by (rule sample_decode(1)) (simp add: sample_claims)
  have ldec: "local_decode ?e ''tok'' = Inr sample_payload"
    by (rule sample_decode(3)) (simp add: sample_claims)
  note R = revocation_failure_policy [where e = ?e and v = sample_remote and token = "''tok''"]
  note L = revocation_failure_policy [where e = ?e and v = sample_local and token = "''tok''"]
  have r1: "fst (is_token_blacklisted ?e sample_remote ''tok'') = False"
    using R a b by blast
  have r2: "fst (verify_token ?e sample_remote ''tok'') = Inr (success_result sample_payload)"
    using R a b sample_not_local tm key dec val ty by metis
  have r3: "fst (verify_token_local_async ?e sample_local ''tok'') =
      Inr (handle_exception (PyException ''ConnectionError''))"
    using L st ldec val ty by metis
  from a h r1 r2 st r3 show ?thesis by simp
qed

text \<open>
  The claim as first stated has a store error propagate to the caller in Local mode. With a
  store that raises \<^verbatim>\<open>ConnectionError\<close>, \<^verbatim>\<open>verify_token_async\<close> returns this
  rejection result and nothing is raised.
\<close>

theorem store_error_returned_counterexample:
  "is_blacklisted
     (sample_env (\<lambda>u. error_response 500) sample_payload
        (Inl (PyException ''ConnectionError'')) 1000) ''tok'' =
     Inl (PyException ''ConnectionError'') \<and>
   verify_token_async
     (sample_env (\<lambda>u. error_response 500) sample_payload
        (Inl (PyException ''ConnectionError'')) 1000) sample_local ''tok'' =
     (Inr \<lparr>success = False,
        data = [(''valid'', JBool False), (''reason'', JStr ''exception''),
                (''error_code'', JStr ''VALIDATION_EXCEPTION'')]\<rparr>,
      sample_local\<lparr>store_queries := [''tok'']\<rparr>)"
  by (simp add: sample_defs verify_defs dict_get_def dict_get_default_def Let_def)

subsection \<open>Round-trip acceptance\<close>









subsection \<open>The blacklist TTL\<close>

text \<open>The field \<^verbatim>\<open>blacklist_cache_ttl\<close> is never read: changing it changes no result.\<close>

lemma is_cache_valid_ttl:
  "is_cache_valid e (v\<lparr>blacklist_cache_ttl := n\<rparr>) t = is_cache_valid e v t"
  by (simp add: is_cache_valid_def split: option.splits)

lemma get_client_ttl:
  "get_client (v\<lparr>blacklist_cache_ttl := n\<rparr>) = (get_client v)\<lparr>blacklist_cache_ttl := n\<rparr>"
  by (simp add: get_client_def)

lemma fetch_blacklist_ttl:
  "fetch_blacklist e (v\<lparr>blacklist_cache_ttl := n\<rparr>) =
     (fst (fetch_blacklist e v), (snd (fetch_blacklist e v))\<lparr>blacklist_cache_ttl := n\<rparr>)"
proof -
  obtain w where w: "get_client v = w" by simp
  have u: "user_service_url (w\<lparr>blacklist_cache_ttl := n\<rparr>) = user_service_url w" by simp
  have r: "(w\<lparr>blacklist_cache_ttl := n\<rparr>)\<lparr>requests := q\<rparr> = (w\<lparr>requests := q\<rparr>)\<lparr>blacklist_cache_ttl := n\<rparr>" for q
    by simp
  show ?thesis
    unfolding fetch_blacklist_def get_client_ttl w Let_def u
    by (simp split: sum.splits option.splits)
qed

lemma blacklist_ttl_unused:
  "get_blacklist_cache e (v\<lparr>blacklist_cache_ttl := n\<rparr>) =
     (fst (get_blacklist_cache e v), (snd (get_blacklist_cache e v))\<lparr>blacklist_cache_ttl := n\<rparr>)"
proof (cases "is_cache_valid e v (blacklist_cache_time v)")
  case True
  then show ?thesis by (simp add: get_blacklist_cache_def is_cache_valid_ttl)
next
  case False
  then show ?thesis
    by (simp add: get_blacklist_cache_def is_cache_valid_ttl fetch_blacklist_ttl split: prod.splits)
qed

text \<open>
  Claim C1 says that a cached blacklist older than \<^verbatim>\<open>blacklist_cache_ttl\<close> is fetched
  again. With the default TTLs (3600 and 300 seconds), a blacklist cached at time 0 is
  served unchanged at time 400, without a request, and a token the issuer has revoked since
  is reported not revoked; only an empty cache time makes the check fetch and find it.
\<close>

theorem stale_blacklist_served:
  "blacklist_cache_ttl (sample_remote\<lparr>blacklist_cache := JArr [], blacklist_cache_time := Some 0\<rparr>) = 300 \<and>
   cache_ttl (sample_remote\<lparr>blacklist_cache := JArr [], blacklist_cache_time := Some 0\<rparr>) = 3600 \<and>
   get_blacklist_cache
     (sample_env (sample_http (ok_response sample_config_doc) (ok_response sample_jwks_doc)
        (ok_response (sample_revocations [''sha256:tok'']))) sample_payload (Inr False) 400)
     (sample_remote\<lparr>blacklist_cache := JArr [], blacklist_cache_time := Some 0\<rparr>) =
     (JArr [], sample_remote\<lparr>blacklist_cache := JArr [], blacklist_cache_time := Some 0\<rparr>) \<and>
   fst (is_token_blacklisted
     (sample_env (sample_http (ok_response sample_config_doc) (ok_response sample_jwks_doc)
        (ok_response (sample_revocations [''sha256:tok'']))) sample_payload (Inr False) 400)
     (sample_remote\<lparr>blacklist_cache := JArr [], blacklist_cache_time := Some 0\<rparr>) ''tok'') = False \<and>
   fst (is_token_blacklisted
     (sample_env (sample_http (ok_response sample_config_doc) (ok_response sample_jwks_doc)
        (ok_response (sample_revocations [''sha256:tok'']))) sample_payload (Inr False) 400)
     (sample_remote\<lparr>blacklist_cache := JArr [], blacklist_cache_time := None\<rparr>) ''tok'') = True"
  by (simp add: sample_defs fetch_defs)

subsection \<open>Inspection utilities\<close>

text \<open>
  Both utilities catch \<^verbatim>\<open>JWTError\<close> only: an exception of another class raised by
  the decoding call leaves them, and so does the \<^verbatim>\<open>TypeError\<close> of a non-numeric
  \<^verbatim>\<open>exp\<close> in a payload the call returns.
\<close>

lemma is_token_expired_decode_raises:
  "jwt_decode_unverified e token = Inl (PyException n) \<Longrightarrow>
   is_token_expired e token = Inl (PyException n)"
  by (simp add: is_token_expired_def)

lemma get_token_expiry_decode_raises:
  "jwt_decode_unverified e token = Inl (PyException n) \<Longrightarrow>
   get_token_expiry e token = Inl (PyException n)"
  by (simp add: get_token_expiry_def)

lemma is_token_expired_string_exp:
  "jwt_decode_unverified e token = Inr payload \<Longrightarrow> dict_get payload ''exp'' = JStr x \<Longrightarrow>
   is_token_expired e token = Inl (PyException ''TypeError'')"
  by (simp add: is_token_expired_def)

lemma get_token_expiry_string_exp:
  "jwt_decode_unverified e token = Inr payload \<Longrightarrow> dict_get payload ''exp'' = JStr x \<Longrightarrow>
   get_token_expiry e token = Inl (PyException ''TypeError'')"
  by (simp add: get_token_expiry_def)

text \<open>What the utilities would answer on a payload, were the decoding call to return one.\<close>

lemma is_token_expired_numeric:
  "jwt_decode_unverified e token = Inr payload \<Longrightarrow> dict_get payload ''exp'' = JNum x \<Longrightarrow>
   is_token_expired e token = Inr (x < utcnow e)"
  by (simp add: is_token_expired_def)

lemma is_token_expired_absent:
  "jwt_decode_unverified e token = Inr payload \<Longrightarrow> map_of payload ''exp'' = None \<Longrightarrow>
   is_token_expired e token = Inr True"
  by (simp add: is_token_expired_def dict_get_def dict_get_default_def)

lemma is_token_expired_unparsable:
  "jwt_decode_unverified e token = Inl JWTError \<Longrightarrow> is_token_expired e token = Inr True"
  by (simp add: is_token_expired_def)

lemma get_token_expiry_numeric:
  "jwt_decode_unverified e token = Inr payload \<Longrightarrow> dict_get payload ''exp'' = JNum x \<Longrightarrow>
   datetime_range e x \<Longrightarrow> get_token_expiry e token = Inr (Some x)"
  by (simp add: get_token_expiry_def)

text \<open>
  Claim C7 says that \<^verbatim>\<open>is_token_expired\<close> never raises. Its call
  \<^verbatim>\<open>jwt.decode(token, options={"verify_signature": False})\<close> passes no key, which
  \<^verbatim>\<open>jose.jwt.decode\<close> requires, so the call raises \<^verbatim>\<open>TypeError\<close>, and the
  \<^verbatim>\<open>except JWTError\<close> clause does not catch it: the exception leaves the function, here
  on a well-signed token of the sample deployment.
\<close>

theorem is_token_expired_raises:
  "is_token_expired
     (sample_env (\<lambda>u. error_response 500) ((''exp'', JStr ''9999999999'') # sample_payload)
        (Inr False) 1000) ''tok'' = Inl (PyException ''TypeError'')"
  by (simp add: is_token_expired_def sample_env_def)

text \<open>
  Claim C8 says that \<^verbatim>\<open>get_token_expiry\<close> never raises. Its decoding call passes no
  key either and raises \<^verbatim>\<open>TypeError\<close>, which the \<^verbatim>\<open>except JWTError\<close> clause does
  not catch: the exception leaves the function instead of a timestamp or \<^verbatim>\<open>None\<close>.
\<close>

theorem get_token_expiry_raises:
  "get_token_expiry
     (sample_env (\<lambda>u. error_response 500) ((''exp'', JStr ''9999999999'') # sample_payload)
        (Inr False) 1000) ''tok'' = Inl (PyException ''TypeError'')"
  by (simp add: get_token_expiry_def sample_env_def)

end
